theory Spec2Isabelle
  imports Main
begin

section \<open>Paths and strings (the library functions \<open>resolve.ts\<close> calls)\<close>

text \<open>
  \<open>src/config/resolve.ts\<close> computes every path with the \<open>upath\<close> wrapper around
  Node's POSIX \<open>path\<close> module. The functions below follow Node's algorithms
  (\<open>normalizeString\<close>, \<open>resolve\<close>, \<open>relative\<close>, \<open>join\<close>, \<open>dirname\<close>,
  \<open>basename\<close>) on \<open>string\<close>. \<open>upath\<close> rewrites every argument and the result
  with \<open>toUnix\<close>; the rewriting of the result is written out where the working
  directory, which is not an argument, can reach the result (\<open>resolve\<close>,
  \<open>relative\<close>), and it changes nothing in the other functions, whose results are
  built from rewritten arguments. The process working directory is the explicit
  parameter \<open>cwd\<close>.
\<close>

definition slash :: char where
  "slash = CHR ''/''"

definition backslash :: char where
  "backslash = CHR 0x5C"

text \<open>\<open>p.replace(/(?<!^)\/+/g, '/')\<close>: runs of slashes collapse, except that the
  first character of the string is never part of a collapsed run.\<close>

fun collapseSlashes :: "string \<Rightarrow> string" where
  "collapseSlashes (a # b # r) =
     (if a = slash \<and> b = slash then collapseSlashes (b # r) else a # collapseSlashes (b # r))"
| "collapseSlashes r = r"

definition toUnix :: "string \<Rightarrow> string" where
  "toUnix p =
     (case map (\<lambda>c. if c = backslash then slash else c) p of
        [] \<Rightarrow> []
      | c # r \<Rightarrow> c # collapseSlashes r)"

text \<open>\<open>s.split(sep)\<close> for a one-character separator: \<open>cur\<close> holds the piece
  being read, last character first. \<open>s.split('/')\<close> is \<open>splitSlash\<close>.\<close>

fun splitOn :: "char \<Rightarrow> string \<Rightarrow> string \<Rightarrow> string list" where
  "splitOn sep cur [] = [rev cur]"
| "splitOn sep cur (c # cs) =
     (if c = sep then rev cur # splitOn sep [] cs else splitOn sep (c # cur) cs)"

definition splitSlash :: "string \<Rightarrow> string list" where
  "splitSlash s = splitOn slash [] s"

text \<open>\<open>segs.join('/')\<close>.\<close>

fun joinSlash :: "string list \<Rightarrow> string" where
  "joinSlash [] = []"
| "joinSlash [s] = s"
| "joinSlash (s # t # ss) = s @ slash # joinSlash (t # ss)"

text \<open>Node's \<open>normalizeString\<close> on the segments of a path: empty and \<open>.\<close> segments
  are dropped; \<open>..\<close> removes the segment before it, unless there is none or it is
  itself \<open>..\<close>, in which case \<open>..\<close> is kept only when \<open>allowAboveRoot\<close>. The
  accumulator holds the result so far, last segment first.\<close>

fun normalizeSegs :: "bool \<Rightarrow> string list \<Rightarrow> string list \<Rightarrow> string list" where
  "normalizeSegs allowAboveRoot acc [] = rev acc"
| "normalizeSegs allowAboveRoot acc (s # ss) =
     (if s = [] \<or> s = ''.'' then normalizeSegs allowAboveRoot acc ss
      else if s = ''..'' then
        (case acc of
           [] \<Rightarrow> normalizeSegs allowAboveRoot (if allowAboveRoot then [s] else []) ss
         | t # ts \<Rightarrow>
             if t \<noteq> ''..'' then normalizeSegs allowAboveRoot ts ss
             else normalizeSegs allowAboveRoot (if allowAboveRoot then s # acc else acc) ss)
      else normalizeSegs allowAboveRoot (s # acc) ss)"

text \<open>The loop of \<open>path.resolve\<close>, from the last argument towards the first and then
  the working directory: empty arguments are skipped, each other one is put in front
  followed by a slash, and the loop stops after the first absolute one. The argument
  list is given last argument first.\<close>

fun resolveLoop :: "string list \<Rightarrow> string \<times> bool" where
  "resolveLoop [] = ([], False)"
| "resolveLoop (p # ps) =
     (if p = [] then resolveLoop ps
      else if hd p = slash then (p @ [slash], True)
      else (case resolveLoop ps of (r, a) \<Rightarrow> (r @ p @ [slash], a)))"

definition resolveSegs :: "string \<Rightarrow> string list \<Rightarrow> string list \<times> bool" where
  "resolveSegs cwd args =
     (case resolveLoop (rev (cwd # map toUnix args)) of
        (r, a) \<Rightarrow> (normalizeSegs (\<not> a) [] (splitSlash r), a))"

definition resolve :: "string \<Rightarrow> string list \<Rightarrow> string" where
  "resolve cwd args =
     (case resolveSegs cwd args of
        (segs, a) \<Rightarrow>
          toUnix (if a then slash # joinSlash segs
                  else if joinSlash segs = [] then ''.'' else joinSlash segs))"

text \<open>\<open>path.relative\<close>: both paths are resolved, their common leading segments are
  dropped, and what is left of \<open>from\<close> becomes as many \<open>..\<close>.\<close>

fun dropCommon :: "string list \<Rightarrow> string list \<Rightarrow> string list \<times> string list" where
  "dropCommon (x # xs) (y # ys) = (if x = y then dropCommon xs ys else (x # xs, y # ys))"
| "dropCommon xs ys = (xs, ys)"

definition relative :: "string \<Rightarrow> string \<Rightarrow> string \<Rightarrow> string" where
  "relative cwd fromPath toPath =
     (case dropCommon (fst (resolveSegs cwd [fromPath])) (fst (resolveSegs cwd [toPath])) of
        (f, t) \<Rightarrow> toUnix (joinSlash (replicate (length f) ''..'' @ t)))"

text \<open>\<open>path.normalize\<close> and \<open>path.join\<close>.\<close>

definition normalize :: "string \<Rightarrow> string" where
  "normalize p =
     (if p = [] then ''.''
      else
        let isAbsolute = (hd p = slash);
            trailing = (last p = slash);
            s = joinSlash (normalizeSegs (\<not> isAbsolute) [] (splitSlash p))
        in if s = [] then (if isAbsolute then ''/'' else if trailing then ''./'' else ''.'')
           else (if isAbsolute then ''/'' else []) @ s @ (if trailing then ''/'' else []))"

definition join :: "string list \<Rightarrow> string" where
  "join args =
     (let j = joinSlash (filter (\<lambda>a. a \<noteq> []) (map toUnix args))
      in if j = [] then ''.'' else normalize j)"

text \<open>\<open>path.basename\<close> (without the extension argument): trailing slashes are
  ignored and the last segment is returned.\<close>

definition basename :: "string \<Rightarrow> string" where
  "basename p = rev (takeWhile (\<lambda>c. c \<noteq> slash) (dropWhile (\<lambda>c. c = slash) (rev (toUnix p))))"

text \<open>\<open>path.dirname\<close>: the scan runs over the characters from the last down to the
  second one, skips trailing slashes and the last segment, and cuts at the slash before
  it; the first character only decides between \<open>/\<close> and \<open>.\<close> when no such slash is
  found, and a cut right after a leading slash gives \<open>//\<close>.\<close>

definition dirname :: "string \<Rightarrow> string" where
  "dirname p0 =
     (let p = toUnix p0 in
      if p = [] then ''.''
      else
        (case dropWhile (\<lambda>c. c \<noteq> slash) (dropWhile (\<lambda>c. c = slash) (rev (tl p))) of
           [] \<Rightarrow> if hd p = slash then ''/'' else ''.''
         | _ # rest \<Rightarrow> if hd p = slash \<and> rest = [] then ''//'' else hd p # rev rest))"

text \<open>String tests and replacements written as regular expressions in the source.\<close>

definition endsWith :: "string \<Rightarrow> string \<Rightarrow> bool" where
  "endsWith s suffix = (length suffix \<le> length s \<and> drop (length s - length suffix) s = suffix)"

definition startsWith :: "string \<Rightarrow> string \<Rightarrow> bool" where
  "startsWith s prefix = (take (length prefix) s = prefix)"

text \<open>\<open>s.replace(/\.md$/, '.html')\<close>.\<close>

definition replaceMdExt :: "string \<Rightarrow> string" where
  "replaceMdExt s = (if endsWith s ''.md'' then take (length s - 3) s @ ''.html'' else s)"

text \<open>\<open>/^https?:/.test(s)\<close>.\<close>

definition isHttpLike :: "string \<Rightarrow> bool" where
  "isHttpLike s = (startsWith s ''http:'' \<or> startsWith s ''https:'')"

text \<open>\<open>/\.html?$/.test(s)\<close>.\<close>

definition hasHtmlExt :: "string \<Rightarrow> bool" where
  "hasHtmlExt s = (endsWith s ''.htm'' \<or> endsWith s ''.html'')"

text \<open>\<open>s.replace(/\/$/, '')\<close>.\<close>

definition stripTrailingSlash :: "string \<Rightarrow> string" where
  "stripTrailingSlash s = (if endsWith s ''/'' then butlast s else s)"

text \<open>A resolved path, as \<open>resolve\<close> returns it: a slash followed by segments
  separated by single slashes, none of them empty, \<open>.\<close> or \<open>..\<close>, and no
  backslash.\<close>

definition cleanSeg :: "string \<Rightarrow> bool" where
  "cleanSeg s =
     (s \<noteq> [] \<and> s \<noteq> ''.'' \<and> s \<noteq> ''..'' \<and> slash \<notin> set s \<and> backslash \<notin> set s)"

definition isResolved :: "string \<Rightarrow> bool" where
  "isResolved p =
     (p \<noteq> [] \<and> hd p = slash \<and> (tl p = [] \<or> list_all cleanSeg (splitSlash (tl p))))"

text \<open>The working directory of a process is an absolute path; the theorems about
  paths take it without backslashes.\<close>

definition properCwd :: "string \<Rightarrow> bool" where
  "properCwd c = (c \<noteq> [] \<and> hd c = slash \<and> backslash \<notin> set c)"

section \<open>Data model\<close>

text \<open>A theme reference of the configuration: a bare string, or a \<open>ThemeObject\<close>
  with its \<open>specifier\<close> and optional \<open>import\<close> (a string or a list of strings).\<close>

datatype ImportPath = ImportOne string | ImportMany "string list"

datatype ThemeRef = ThemeString string | ThemeObject string "ImportPath option"

text \<open>\<open>ParsedTheme\<close>. A JavaScript object has an identity besides its fields, and
  \<open>Set<ParsedTheme>\<close> compares by it: \<open>ident\<close> is the address of the object, taken from
  the allocation counter of the state when \<open>parseTheme\<close> builds the object literal.\<close>

datatype ParsedTheme =
    UriTheme (ident: nat) (themeName: string) (location: string)
  | FileTheme (ident: nat) (themeName: string) (themeSource: string) (location: string)
  | PackageTheme (ident: nat) (themeName: string) (specifier: string) (location: string)
      (importPath: "ImportPath option")

text \<open>The accepted manuscript media types are kept as the strings of the source.\<close>

definition manuscriptMediaTypes :: "string list" where
  "manuscriptMediaTypes = [''text/markdown'', ''text/html'', ''application/xhtml+xml'']"

datatype EntrySource =
    FileEntrySource (pathname: string) (sourceContentType: string)
  | UriEntrySource (href: string) (rootDir: string)

text \<open>A \<open>rel\<close> value: a string or an array of strings.\<close>

datatype RelValue = RelString string | RelList "string list"

record ExportAlias =
  aliasSource :: string
  aliasTarget :: string

text \<open>The two \<open>transform\<close> hooks of a table of contents are functions of the
  configuration; the resolver only passes them on.\<close>

typedecl hook

record ManuscriptEntry =
  contentType :: string
  manuscriptTitle :: "string option"
  manuscriptThemes :: "ParsedTheme list"
  manuscriptSource :: EntrySource
  manuscriptTarget :: string
  manuscriptRel :: "RelValue option"

record ContentsEntry =
  contentsTitle :: "string option"
  contentsThemes :: "ParsedTheme list"
  contentsTemplate :: "EntrySource option"
  contentsTarget :: string
  tocTitle :: string
  sectionDepth :: nat
  transformDocumentList :: "hook option"
  transformSectionList :: "hook option"
  contentsPageBreakBefore :: "string option"
  pageCounterReset :: "nat option"

record CoverEntry =
  coverTitle :: "string option"
  coverThemes :: "ParsedTheme list"
  coverTemplate :: "EntrySource option"
  coverTarget :: string
  coverImageSrc :: string
  coverImageAlt :: string
  coverPageBreakBefore :: "string option"

datatype ParsedEntry =
    Manuscript ManuscriptEntry
  | Contents ContentsEntry
  | Cover CoverEntry

fun entryTitle :: "ParsedEntry \<Rightarrow> string option" where
  "entryTitle (Manuscript m) = manuscriptTitle m"
| "entryTitle (Contents c) = contentsTitle c"
| "entryTitle (Cover v) = coverTitle v"

fun entryThemes :: "ParsedEntry \<Rightarrow> ParsedTheme list" where
  "entryThemes (Manuscript m) = manuscriptThemes m"
| "entryThemes (Contents c) = contentsThemes c"
| "entryThemes (Cover v) = coverThemes v"


text \<open>The source of an entry: only manuscripts have one (\<open>source?: undefined\<close> in the
  other two interfaces).\<close>

fun entrySource :: "ParsedEntry \<Rightarrow> EntrySource option" where
  "entrySource (Manuscript m) = Some (manuscriptSource m)"
| "entrySource (Contents c) = None"
| "entrySource (Cover v) = None"

datatype ViewerInputConfig =
    WebPublicationManifestConfig (manifestPath: string) (needToGenerateManifest: bool)
  | EpubEntryConfig string string
  | EpubOpfEntryConfig string
  | WebBookEntryConfig string

datatype Preflight = PressReady | PressReadyLocal | PreflightNull

datatype RenderMode = Local | Docker

datatype OutputConfig =
    PdfOutput (outputPath: string) RenderMode Preflight "string list"
  | WebPublicationOutput (outputPath: string)
  | EpubOutput (outputPath: string) string

section \<open>Errors\<close>

text \<open>Every \<open>throw\<close> is a value. \<open>Error m\<close> is \<open>throw new Error(m)\<close> of
  \<open>resolve.ts\<close>, with the message as the source builds it; \<open>StatError\<close> is a failed
  \<open>statFileSync\<close> with the \<open>errorMessage\<close> option it was given and the path;
  \<open>TypeError\<close> stands for the runtime's own exceptions (\<open>new URL\<close> on an
  invalid URL, a property read on \<open>undefined\<close>).\<close>

datatype error =
    Error string
  | StatError "string option" string
  | TypeError string

section \<open>The environment and the state of one resolution\<close>

text \<open>The result of \<open>parsePackageName\<close> (\<open>processor/theme.js\<close>), as far as
  \<open>parseTheme\<close> reads it.\<close>

record ParsedPackage =
  packageName :: "string option"
  registry :: bool
  packageType :: string
  fetchSpec :: "string option"

text \<open>A value found under \<open>vfm.theme\<close> in the front matter of a manuscript: a
  string, an object with \<open>specifier\<close> and \<open>import\<close>, or anything else, of which only
  the truthiness matters.\<close>

datatype ThemeValue =
    TVString string
  | TVObject string "ImportPath option"
  | TVOther bool

datatype MetadataTheme = MetaOne ThemeValue | MetaList "ThemeValue list"

record Metadata =
  metaTitle :: "string option"
  metaTheme :: "MetadataTheme option"

record PackageJson =
  pkgName :: "string option"
  pkgAuthor :: "string option"

text \<open>A \<open>URL\<close> object, as far as the resolver reads it. The constructor is a
  parameter (\<open>None\<close> when it throws), and so is the serialisation \<open>href\<close>.\<close>

record URL =
  protocol :: string
  urlHost :: string
  urlPathname :: string
  urlRest :: string

text \<open>What the resolver reads from outside: the file system, the clock, and the
  helpers and constants of this repository that live in other modules (\<open>util.js\<close>,
  \<open>const.js\<close>, \<open>processor/*.js\<close>) or in libraries (\<open>mime-types\<close>, \<open>URL\<close>).
  They are parameters of the model.\<close>

record env =
  cwd :: string
  now :: nat
  fileExists :: "string \<Rightarrow> bool"
  readFile :: "string \<Rightarrow> string"
  mime :: "string \<Rightarrow> string option"
  isValidUri :: "string \<Rightarrow> bool"
  parsePackageName :: "string \<Rightarrow> string \<Rightarrow> ParsedPackage option"
  packageJsonName :: "string \<Rightarrow> string option"
  readMarkdownMetadata :: "string \<Rightarrow> Metadata"
  readJSON :: "string \<Rightarrow> PackageJson option"
  newURL :: "string \<Rightarrow> URL option"
  newURLWithBase :: "string \<Rightarrow> string \<Rightarrow> URL option"
  pathToFileURL :: "string \<Rightarrow> URL"
  hrefOf :: "URL \<Rightarrow> string"
  COVER_HTML_FILENAME :: string
  COVER_HTML_IMAGE_ALT :: string
  EPUB_OUTPUT_VERSION :: string
  MANIFEST_FILENAME :: string
  TOC_FILENAME :: string
  TOC_TITLE :: string

text \<open>What one resolution call builds up: the objects allocated so far, the theme
  index (a \<open>Set\<close>, kept in insertion order), the alias list, the temporary files
  touched and the warnings logged.\<close>

record state =
  nextObject :: nat
  themeIndexes :: "ParsedTheme list"
  exportAliases :: "ExportAlias list"
  touched :: "string list"
  warnings :: "string list"

definition initialState :: state where
  "initialState = \<lparr>nextObject = 0, themeIndexes = [], exportAliases = [], touched = [],
     warnings = []\<rparr>"

text \<open>\<open>Set.prototype.add\<close>: an object already in the set, that is one with the same
  identity, is not added again.\<close>

definition setAdd :: "ParsedTheme \<Rightarrow> ParsedTheme list \<Rightarrow> ParsedTheme list" where
  "setAdd t s = (if ident t \<in> set (map ident s) then s else s @ [t])"

text \<open>\<open>themes.forEach((t) => themeIndexes.add(t))\<close>.\<close>

definition addThemes :: "ParsedTheme list \<Rightarrow> state \<Rightarrow> state" where
  "addThemes ts st = st\<lparr>themeIndexes := foldl (\<lambda>s t. setAdd t s) (themeIndexes st) ts\<rparr>"

text \<open>JavaScript truthiness of an optional string: \<open>undefined\<close> and \<open>''\<close> are
  falsy.\<close>

fun truthy :: "string option \<Rightarrow> bool" where
  "truthy None = False"
| "truthy (Some s) = (s \<noteq> [])"

text \<open>\<open>a || b\<close> and \<open>a ?? b\<close> on optional strings.\<close>

definition orElse :: "string option \<Rightarrow> string option \<Rightarrow> string option" where
  "orElse a b = (if truthy a then a else b)"

definition nullish :: "'a option \<Rightarrow> 'a option \<Rightarrow> 'a option" where
  "nullish a b = (case a of None \<Rightarrow> b | Some x \<Rightarrow> Some x)"

text \<open>Modelled from the spec: \<open>touchTmpFile\<close> of \<open>util.js\<close>, which is not among the
  sources. It "touches an empty placeholder at the temporary path (so downstream
  existence checks succeed)".\<close>

definition touchTmpFile :: "string \<Rightarrow> state \<Rightarrow> state" where
  "touchTmpFile p st = st\<lparr>touched := touched st @ [p]\<rparr>"

text \<open>A path exists when the file system had it at the start or the run touched it.\<close>

definition existsSync :: "env \<Rightarrow> state \<Rightarrow> string \<Rightarrow> bool" where
  "existsSync E st p = (fileExists E p \<or> p \<in> set (touched st))"

text \<open>Modelled from the spec: \<open>statFileSync\<close> of \<open>util.js\<close>, which is not among the
  sources: the "missing required file" error when the path is absent.\<close>

definition statFileSync :: "env \<Rightarrow> state \<Rightarrow> string option \<Rightarrow> string \<Rightarrow> error option" where
  "statFileSync E st errorMessage p =
     (if existsSync E st p then None else Some (StatError errorMessage p))"

text \<open>Modelled from the spec: \<open>pathEquals\<close> of \<open>util.js\<close>, which is not among the
  sources: the two paths are "filesystem-identical", that is they resolve to the same
  absolute path.\<close>

definition pathEquals :: "env \<Rightarrow> string \<Rightarrow> string \<Rightarrow> bool" where
  "pathEquals E a b = (resolve (cwd E) [a] = resolve (cwd E) [b])"

text \<open>\<open>logWarn\<close>.\<close>

definition logWarn :: "string \<Rightarrow> state \<Rightarrow> state" where
  "logWarn m st = st\<lparr>warnings := warnings st @ [m]\<rparr>"

section \<open>\<open>isManuscriptMediaType\<close> and \<open>parseTheme\<close>\<close>

definition isManuscriptMediaType :: "string option \<Rightarrow> bool" where
  "isManuscriptMediaType mediaType =
     (case mediaType of None \<Rightarrow> False
      | Some m \<Rightarrow> m \<noteq> [] \<and> m \<in> set manuscriptMediaTypes)"

text \<open>The object literal that \<open>parseTheme\<close> returns is a new object: it takes the
  next address.\<close>

definition allocate :: "state \<Rightarrow> nat \<times> state" where
  "allocate st = (nextObject st, st\<lparr>nextObject := Suc (nextObject st)\<rparr>)"

definition parseTheme ::
  "env \<Rightarrow> ThemeRef \<Rightarrow> string \<Rightarrow> string \<Rightarrow> string \<Rightarrow> state \<Rightarrow> error + (ParsedTheme \<times> state)" where
  "parseTheme E theme context workspaceDir themesDir st =
     (case (case theme of ThemeString s \<Rightarrow> (s, None) | ThemeObject s i \<Rightarrow> (s, i)) of
        (spec, importP) \<Rightarrow>
     (case allocate st of (i, st') \<Rightarrow>
      if isValidUri E spec then Inr (UriTheme i (basename spec) spec, st')
      else
        let stylePath = resolve (cwd E) [context, spec] in
        if existsSync E st stylePath \<and> endsWith stylePath ''.css'' then
          Inr (FileTheme i (basename spec) stylePath
                 (resolve (cwd E) [workspaceDir, relative (cwd E) context stylePath]), st')
        else
          (case parsePackageName E spec context of
             None \<Rightarrow> Inl (Error (''Invalid package name: '' @ spec))
           | Some parsed \<Rightarrow>
               if \<not> registry parsed \<and> packageType parsed \<noteq> ''directory'' then
                 Inl (Error (''This package specifier is not allowed: '' @ spec))
               else
                 (case (if packageType parsed = ''directory'' \<and> truthy (fetchSpec parsed) then
                          (case fetchSpec parsed of
                             None \<Rightarrow> (packageName parsed, spec)
                           | Some fs \<Rightarrow>
                               if existsSync E st (join [fs, ''package.json''])
                               then (packageJsonName E (join [fs, ''package.json'']), fs)
                               else (packageName parsed, spec))
                        else (packageName parsed, spec)) of
                    (name, resolvedSpecifier) \<Rightarrow>
                      (case name of
                         None \<Rightarrow> Inl (Error (''Could not determine the package name: '' @ spec))
                       | Some n \<Rightarrow>
                           if n = [] then
                             Inl (Error (''Could not determine the package name: '' @ spec))
                           else
                             Inr (PackageTheme i n resolvedSpecifier
                                    (join [themesDir, ''node_modules'', n]) importP, st'))))))"

text \<open>\<open>refs.map((theme) => parseTheme({theme, context, workspaceDir, themesDir}))\<close>:
  the references are resolved from left to right and the first error ends the call.\<close>

fun parseThemes ::
  "env \<Rightarrow> ThemeRef list \<Rightarrow> string \<Rightarrow> string \<Rightarrow> string \<Rightarrow> state \<Rightarrow> error + (ParsedTheme list \<times> state)" where
  "parseThemes E [] context workspaceDir themesDir st = Inr ([], st)"
| "parseThemes E (r # rs) context workspaceDir themesDir st =
     (case parseTheme E r context workspaceDir themesDir st of
        Inl e \<Rightarrow> Inl e
      | Inr (t, st') \<Rightarrow>
          (case parseThemes E rs context workspaceDir themesDir st' of
             Inl e \<Rightarrow> Inl e
           | Inr (ts, st'') \<Rightarrow> Inr (t # ts, st'')))"

text \<open>Two theme records have the same content when they differ at most in their
  identity.\<close>

fun reidentify :: "nat \<Rightarrow> ParsedTheme \<Rightarrow> ParsedTheme" where
  "reidentify i (UriTheme j n l) = UriTheme i n l"
| "reidentify i (FileTheme j n s l) = FileTheme i n s l"
| "reidentify i (PackageTheme j n s l p) = PackageTheme i n s l p"

definition sameContent :: "ParsedTheme \<Rightarrow> ParsedTheme \<Rightarrow> bool" where
  "sameContent a b = (reidentify 0 a = reidentify 0 b)"

section \<open>The configuration (\<open>ParsedBuildTask\<close>) and the inline options\<close>

text \<open>The schema module is not among the sources; the records hold the fields that
  \<open>resolve.ts\<close> reads, an optional property as an \<open>option\<close>. \<open>theme\<close> is a single
  reference or an array.\<close>

datatype ThemeField = ThemeOne ThemeRef | ThemeMany "ThemeRef list"

record EntryObject =
  entryRel :: "RelValue option"
  entryPath :: "string option"
  entryOutput :: "string option"
  entryTitleField :: "string option"
  entryTheme :: "ThemeField option"
  entryPageBreakBefore :: "string option"
  entryPageCounterReset :: "nat option"
  imageSrc :: "string option"
  imageAlt :: "string option"

datatype OutputFormat = Pdf | Epub | Webpub

record OutputObject =
  targetPath :: string
  targetFormat :: OutputFormat
  targetRenderMode :: "RenderMode option"
  targetPreflight :: "Preflight option"
  targetPreflightOption :: "string list option"

text \<open>\<open>config.cover\<close>: \<open>htmlPath\<close> is \<open>None\<close> when the key is absent, \<open>Some None\<close>
  when it is present without a string (\<open>false\<close>), \<open>Some (Some s)\<close> for a string.\<close>

record CoverConfig =
  coverSrc :: string
  coverName :: "string option"
  coverHtmlPath :: "string option option"

record TocConfig =
  tocConfigTitle :: "string option"
  tocHtmlPath :: "string option"
  tocSectionDepth :: "nat option"
  tocTransformDocumentList :: "hook option"
  tocTransformSectionList :: "hook option"

datatype Host = HostBool bool | HostName string

record ServerConfig =
  serverHost :: "Host option"
  serverPort :: "nat option"

record ParsedBuildTask =
  configEntry :: "EntryObject list"
  configEntryContext :: "string option"
  configWorkspaceDir :: "string option"
  configTemporaryFilePrefix :: "string option"
  configSize :: "string option"
  configTheme :: "ThemeRef list option"
  configOutput :: "OutputObject list option"
  configTitle :: "string option"
  configAuthor :: "string option"
  configPressReady :: bool
  configCover :: "CoverConfig option"
  configToc :: "TocConfig option"
  configTocTitle :: "string option"
  configServer :: "ServerConfig option"

datatype InputFormat = Markdown | Webbook | PubManifest | EpubOpfFormat | EpubFormat

record InputOption =
  inputFormat :: InputFormat
  inputEntry :: string

record InlineOptions =
  optionCwd :: "string option"
  optionConfig :: "string option"
  optionInput :: "InputOption option"

datatype PageSize = WidthHeight string string | PageFormat string

record ResolvedCover =
  resolvedCoverSrc :: string
  resolvedCoverName :: string
  resolvedCoverHtmlPath :: "string option"

text \<open>\<open>CommonOpts\<close>, without \<open>themeIndexes\<close> (it is in the state) and without the
  options that \<open>resolveTaskConfig\<close> only copies from its arguments to its result
  (crop marks, styles, browser, proxy, log level, \<open>vite\<close> and the like): no path, entry,
  theme, output or alias depends on them.\<close>

record CommonOpts =
  contextDir :: string
  entryContextDir :: string
  workspaceDir :: string
  themesDir :: string
  outputs :: "OutputConfig list"
  rootThemes :: "ParsedTheme list"
  temporaryFilePrefix :: string
  pageSize :: "PageSize option"
  cover :: "ResolvedCover option"
  host :: Host
  port :: nat

record ResolvedTaskConfig =
  common :: CommonOpts
  entries :: "ParsedEntry list"
  inputFormatOf :: InputFormat
  inputEntryOf :: string
  viewerInput :: ViewerInputConfig
  resolvedThemeIndexes :: "ParsedTheme list"
  resolvedExportAliases :: "ExportAlias list"
  title :: "string option"
  author :: "string option"

section \<open>\<open>parsePageSize\<close> and \<open>parseFileMetadata\<close>\<close>

text \<open>\<open>s.split(',')\<close>.\<close>

definition splitComma :: "string \<Rightarrow> string list" where
  "splitComma s = splitOn (CHR '','') [] s"

definition parsePageSize :: "string \<Rightarrow> error + PageSize" where
  "parsePageSize sz =
     (case splitComma sz of
        [] \<Rightarrow> Inl (Error (''Cannot parse size: '' @ sz))
      | [width] \<Rightarrow>
          if width = [] then Inl (Error (''Cannot parse size: '' @ sz))
          else Inr (PageFormat width)
      | [width, height] \<Rightarrow>
          if width = [] then Inl (Error (''Cannot parse size: '' @ sz))
          else if height \<noteq> [] then Inr (WidthHeight width height)
          else Inr (PageFormat width)
      | width # height # other # others \<Rightarrow> Inl (Error (''Cannot parse size: '' @ sz)))"

text \<open>\<open>content.match(/<title>([^<]*)<\/title>/)?.[1] || undefined\<close>: the leftmost
  \<open><title>\<close> that is closed before any other tag opens; an empty title counts as
  none.\<close>

fun matchTitle :: "string \<Rightarrow> string option" where
  "matchTitle [] = None"
| "matchTitle (c # cs) =
     (if startsWith (c # cs) ''<title>''
         \<and> startsWith (dropWhile (\<lambda>x. x \<noteq> CHR ''<'') (drop 7 (c # cs))) ''</title>''
      then Some (takeWhile (\<lambda>x. x \<noteq> CHR ''<'') (drop 7 (c # cs)))
      else matchTitle cs)"

text \<open>The truthiness of \<open>metadata.vfm?.theme\<close>, and
  \<open>[theme].flat().filter((entry) => !!entry && (typeof entry === 'string' || typeof
  entry === 'object'))\<close>.\<close>

fun themeValueTruthy :: "ThemeValue \<Rightarrow> bool" where
  "themeValueTruthy (TVString s) = (s \<noteq> [])"
| "themeValueTruthy (TVObject s i) = True"
| "themeValueTruthy (TVOther b) = b"

fun metadataThemeTruthy :: "MetadataTheme option \<Rightarrow> bool" where
  "metadataThemeTruthy None = False"
| "metadataThemeTruthy (Some (MetaOne v)) = themeValueTruthy v"
| "metadataThemeTruthy (Some (MetaList vs)) = True"

fun themeRefsOfValues :: "ThemeValue list \<Rightarrow> ThemeRef list" where
  "themeRefsOfValues [] = []"
| "themeRefsOfValues (TVString s # vs) =
     (if s \<noteq> [] then ThemeString s # themeRefsOfValues vs else themeRefsOfValues vs)"
| "themeRefsOfValues (TVObject s i # vs) = ThemeObject s i # themeRefsOfValues vs"
| "themeRefsOfValues (TVOther b # vs) = themeRefsOfValues vs"

fun flatMetadataTheme :: "MetadataTheme \<Rightarrow> ThemeValue list" where
  "flatMetadataTheme (MetaOne v) = [v]"
| "flatMetadataTheme (MetaList vs) = vs"

record FileMetadata =
  fileTitle :: "string option"
  fileThemes :: "ParsedTheme list option"

definition parseFileMetadata ::
  "env \<Rightarrow> string \<Rightarrow> string \<Rightarrow> string \<Rightarrow> string option \<Rightarrow> state \<Rightarrow> error + (FileMetadata \<times> state)" where
  "parseFileMetadata E ctype sourcePath wsDir thDir st =
     (if ctype = ''text/markdown'' then
        (let metadata = readMarkdownMetadata E sourcePath in
         case thDir of
           None \<Rightarrow> Inr (\<lparr>fileTitle = metaTitle metadata, fileThemes = None\<rparr>, st)
         | Some td \<Rightarrow>
             if metadataThemeTruthy (metaTheme metadata) \<and> td \<noteq> [] then
               (case metaTheme metadata of
                  None \<Rightarrow> Inr (\<lparr>fileTitle = metaTitle metadata, fileThemes = None\<rparr>, st)
                | Some mt \<Rightarrow>
                    (case parseThemes E (themeRefsOfValues (flatMetadataTheme mt))
                            (dirname sourcePath) wsDir td st of
                       Inl e \<Rightarrow> Inl e
                     | Inr (ts, st') \<Rightarrow>
                         Inr (\<lparr>fileTitle = metaTitle metadata, fileThemes = Some ts\<rparr>, st')))
             else Inr (\<lparr>fileTitle = metaTitle metadata, fileThemes = None\<rparr>, st))
      else
        Inr (\<lparr>fileTitle = orElse (matchTitle (readFile E sourcePath)) None, fileThemes = None\<rparr>, st))"

section \<open>The Output Target Normalizer (the \<open>outputs\<close> of \<open>resolveTaskConfig\<close>)\<close>

definition defaultPreflight :: "ParsedBuildTask \<Rightarrow> Preflight" where
  "defaultPreflight config = (if configPressReady config then PressReady else PreflightNull)"

text \<open>One declared output: the path is resolved against the context directory; a
  PDF target is spread over the defaults, so a property the target has wins.\<close>

definition resolveOutput :: "env \<Rightarrow> ParsedBuildTask \<Rightarrow> string \<Rightarrow> OutputObject \<Rightarrow> OutputConfig" where
  "resolveOutput E config ctx target =
     (let outPath = resolve (cwd E) [ctx, targetPath target] in
      case targetFormat target of
        Pdf \<Rightarrow>
          PdfOutput outPath
            (case targetRenderMode target of None \<Rightarrow> Local | Some m \<Rightarrow> m)
            (case targetPreflight target of None \<Rightarrow> defaultPreflight config | Some p \<Rightarrow> p)
            (case targetPreflightOption target of None \<Rightarrow> [] | Some os \<Rightarrow> os)
      | Epub \<Rightarrow> EpubOutput outPath (EPUB_OUTPUT_VERSION E)
      | Webpub \<Rightarrow> WebPublicationOutput outPath)"

text \<open>\<open>if (config.output)\<close> tests the array for being there: an empty array is
  truthy and is mapped to an empty list.\<close>

definition resolveOutputs :: "env \<Rightarrow> ParsedBuildTask \<Rightarrow> string \<Rightarrow> OutputConfig list" where
  "resolveOutputs E config ctx =
     (case configOutput config of
        Some targets \<Rightarrow> map (resolveOutput E config ctx) targets
      | None \<Rightarrow>
          (let filename = (if truthy (configTitle config)
                           then (case configTitle config of Some t \<Rightarrow> t @ ''.pdf'' | None \<Rightarrow> ''output.pdf'')
                           else ''output.pdf'')
           in [PdfOutput (resolve (cwd E) [ctx, filename]) Local (defaultPreflight config) []]))"

section \<open>The Entry Classifier (\<open>parseEntry\<close> inside \<open>composeProjectConfig\<close>)\<close>

text \<open>The variables of \<open>composeProjectConfig\<close> that the closure \<open>parseEntry\<close>
  reads.\<close>

record ResolvedToc =
  resolvedTocTitle :: string
  resolvedTocTarget :: string
  resolvedSectionDepth :: nat
  resolvedTransformDocumentList :: "hook option"
  resolvedTransformSectionList :: "hook option"

record ProjectScope =
  scopeCommon :: CommonOpts
  localOrigin :: string
  tocConfig :: ResolvedToc
  projectTitle :: "string option"

definition isContentsEntry :: "EntryObject \<Rightarrow> bool" where
  "isContentsEntry entry = (entryRel entry = Some (RelString ''contents''))"

definition isCoverEntry :: "EntryObject \<Rightarrow> bool" where
  "isCoverEntry entry = (entryRel entry = Some (RelString ''cover''))"

definition isArticleEntry :: "EntryObject \<Rightarrow> bool" where
  "isArticleEntry entry = (\<not> isContentsEntry entry \<and> \<not> isCoverEntry entry)"

text \<open>The result of \<open>getInputInfo\<close>: a file source with the metadata read from the
  file, or a URI source without metadata.\<close>

datatype InputInfo =
    FileInput string string FileMetadata
  | UriInput string string

text \<open>\<open>const { metadata, ...source } = inputInfo\<close>.\<close>

fun sourceOf :: "InputInfo \<Rightarrow> EntrySource" where
  "sourceOf (FileInput p ct md) = FileEntrySource p ct"
| "sourceOf (UriInput h r) = UriEntrySource h r"

fun metadataOf :: "InputInfo option \<Rightarrow> FileMetadata option" where
  "metadataOf (Some (FileInput p ct md)) = Some md"
| "metadataOf (Some (UriInput h r)) = None"
| "metadataOf None = None"

text \<open>\<open>metadata?.title\<close> and \<open>metadata?.themes\<close>.\<close>

definition metadataTitle :: "FileMetadata option \<Rightarrow> string option" where
  "metadataTitle md = (case md of None \<Rightarrow> None | Some m \<Rightarrow> fileTitle m)"

definition metadataThemes :: "FileMetadata option \<Rightarrow> ParsedTheme list option" where
  "metadataThemes md = (case md of None \<Rightarrow> None | Some m \<Rightarrow> fileThemes m)"

text \<open>The template literal \<open>${entry}\<close> converts the entry, a plain object, with
  \<open>Object.prototype.toString\<close>.\<close>

definition entryToString :: "EntryObject \<Rightarrow> string" where
  "entryToString entry = ''[object Object]''"

text \<open>\<open>${contentType}\<close> for the result of \<open>mime\<close>, a string or \<open>false\<close>.\<close>

definition mimeToString :: "string option \<Rightarrow> string" where
  "mimeToString m = (case m of None \<Rightarrow> ''false'' | Some s \<Rightarrow> s)"

definition getInputInfo ::
  "env \<Rightarrow> ProjectScope \<Rightarrow> EntryObject \<Rightarrow> string \<Rightarrow> state \<Rightarrow> error + (InputInfo \<times> state)" where
  "getInputInfo E P entry path st =
     (if isHttpLike path then
        (case newURL E path of
           None \<Rightarrow> Inl (TypeError ''Invalid URL'')
         | Some u \<Rightarrow> Inr (UriInput path (join [workspaceDir (scopeCommon P), urlHost u]), st))
      else if startsWith path ''/'' then
        Inr (UriInput (if localOrigin P \<noteq> [] then localOrigin P @ path else path)
               (join [workspaceDir (scopeCommon P), ''.local'']), st)
      else
        (let pathname = resolve (cwd E) [entryContextDir (scopeCommon P), path] in
         case statFileSync E st None pathname of
           Some e \<Rightarrow> Inl e
         | None \<Rightarrow>
             if \<not> isManuscriptMediaType (mime E pathname) then
               Inl (Error (''Invalid manuscript type '' @ mimeToString (mime E pathname)
                           @ '' detected: '' @ entryToString entry))
             else
               (case mime E pathname of
                  None \<Rightarrow> Inl (TypeError ''unreachable'')
                | Some ct \<Rightarrow>
                    (case parseFileMetadata E ct pathname (workspaceDir (scopeCommon P))
                            (Some (themesDir (scopeCommon P))) st of
                       Inl e \<Rightarrow> Inl e
                     | Inr (md, st') \<Rightarrow> Inr (FileInput pathname ct md, st')))))"

definition getTargetPath :: "env \<Rightarrow> ProjectScope \<Rightarrow> EntrySource \<Rightarrow> error + string" where
  "getTargetPath E P source =
     (case source of
        FileEntrySource p ct \<Rightarrow>
          Inr (resolve (cwd E)
                 [workspaceDir (scopeCommon P),
                  replaceMdExt (relative (cwd E) (entryContextDir (scopeCommon P)) p)])
      | UriEntrySource h r \<Rightarrow>
          (case newURLWithBase E h ''a://dummy'' of
             None \<Rightarrow> Inl (TypeError ''Invalid URL'')
           | Some url \<Rightarrow>
               Inr (join [r, if \<not> hasHtmlExt (urlPathname url)
                             then stripTrailingSlash (urlPathname url) @ ''/index.html''
                             else urlPathname url])))"

text \<open>Lines 886 to 901: a contents or cover entry whose \<open>path\<close> names no file keeps
  the value as its \<open>output\<close>, and a warning is logged. The text of the warning is
  given without the colour codes.\<close>

definition missingPathWarning :: "string \<Rightarrow> string" where
  "missingPathWarning source =
     ''The '' @ [CHR 0x22] @ ''path'' @ [CHR 0x22]
     @ '' option is set but the file does not exist: '' @ source @ [CHR 0x0A]
     @ ''Maybe you want to set the '' @ [CHR 0x22] @ ''output'' @ [CHR 0x22]
     @ '' field instead.''"

definition reinterpretMissingPath ::
  "env \<Rightarrow> ProjectScope \<Rightarrow> EntryObject \<Rightarrow> state \<Rightarrow> EntryObject \<times> state" where
  "reinterpretMissingPath E P entry st =
     (if (isContentsEntry entry \<or> isCoverEntry entry) \<and> truthy (entryPath entry) then
        (case entryPath entry of
           None \<Rightarrow> (entry, st)
         | Some p \<Rightarrow>
             (let source = resolve (cwd E) [entryContextDir (scopeCommon P), p] in
              case statFileSync E st None source of
                None \<Rightarrow> (entry, st)
              | Some err \<Rightarrow>
                  (entry\<lparr>entryOutput := entryPath entry, entryPath := None\<rparr>,
                   logWarn (missingPathWarning source) st)))
      else (entry, st))"

text \<open>\<open>entry.path ? getInputInfo(entry.path) : undefined\<close>.\<close>

definition optionalInputInfo ::
  "env \<Rightarrow> ProjectScope \<Rightarrow> EntryObject \<Rightarrow> state \<Rightarrow> error + (InputInfo option \<times> state)" where
  "optionalInputInfo E P entry st =
     (case entryPath entry of
        None \<Rightarrow> Inr (None, st)
      | Some p \<Rightarrow>
          if p = [] then Inr (None, st)
          else (case getInputInfo E P entry p st of
                  Inl e \<Rightarrow> Inl e
                | Inr (info, st') \<Rightarrow> Inr (Some info, st')))"

text \<open>\<open>entry.output ? upath.resolve(workspaceDir, entry.output) : inputInfo &&
  getTargetPath(inputInfo)\<close>.\<close>

definition optionalTarget ::
  "env \<Rightarrow> ProjectScope \<Rightarrow> EntryObject \<Rightarrow> InputInfo option \<Rightarrow> error + string option" where
  "optionalTarget E P entry info =
     (if truthy (entryOutput entry) then
        (case entryOutput entry of
           None \<Rightarrow> Inr None
         | Some out \<Rightarrow> Inr (Some (resolve (cwd E) [workspaceDir (scopeCommon P), out])))
      else
        (case info of
           None \<Rightarrow> Inr None
         | Some i \<Rightarrow>
             (case getTargetPath E P (sourceOf i) of
                Inl e \<Rightarrow> Inl e
              | Inr t \<Rightarrow> Inr (Some t))))"

text \<open>The themes of an entry: \<open>entry.theme ? [entry.theme].flat().map(parseTheme) :
  (metadata?.themes ?? fallback)\<close>, where the fallback is a copy of the root themes
  for a contents or manuscript entry and the empty array for a cover. The copy
  \<open>[...rootThemes]\<close> is a new array of the same theme objects.\<close>

fun themeFieldTruthy :: "ThemeField option \<Rightarrow> bool" where
  "themeFieldTruthy None = False"
| "themeFieldTruthy (Some (ThemeOne (ThemeString s))) = (s \<noteq> [])"
| "themeFieldTruthy (Some (ThemeOne (ThemeObject s i))) = True"
| "themeFieldTruthy (Some (ThemeMany rs)) = True"

fun flatThemeField :: "ThemeField \<Rightarrow> ThemeRef list" where
  "flatThemeField (ThemeOne r) = [r]"
| "flatThemeField (ThemeMany rs) = rs"

definition resolveEntryThemes ::
  "env \<Rightarrow> ProjectScope \<Rightarrow> EntryObject \<Rightarrow> FileMetadata option \<Rightarrow> ParsedTheme list \<Rightarrow> state
     \<Rightarrow> error + (ParsedTheme list \<times> state)" where
  "resolveEntryThemes E P entry md fallback st =
     (if themeFieldTruthy (entryTheme entry) then
        (case entryTheme entry of
           None \<Rightarrow> Inr (fallback, st)
         | Some tf \<Rightarrow>
             parseThemes E (flatThemeField tf) (contextDir (scopeCommon P))
               (workspaceDir (scopeCommon P)) (themesDir (scopeCommon P)) st)
      else
        Inr (case metadataThemes md of None \<Rightarrow> fallback | Some ts \<Rightarrow> ts, st))"

text \<open>The collision check of the contents and cover branches (lines 921 to 932 and
  973 to 984): for a file input whose path equals the target, a temporary sibling
  becomes the target, is touched, and is aliased to the target.\<close>

definition inputPathname :: "InputInfo option \<Rightarrow> string option" where
  "inputPathname info = (case info of Some (FileInput q ct md) \<Rightarrow> Some q | _ \<Rightarrow> None)"

definition temporarySibling :: "env \<Rightarrow> ProjectScope \<Rightarrow> string \<Rightarrow> string" where
  "temporarySibling E P target =
     resolve (cwd E)
       [dirname target, temporaryFilePrefix (scopeCommon P) @ basename target]"

definition avoidCollision ::
  "env \<Rightarrow> ProjectScope \<Rightarrow> InputInfo option \<Rightarrow> string \<Rightarrow> state \<Rightarrow> string \<times> state" where
  "avoidCollision E P info target st =
     (case inputPathname info of
        None \<Rightarrow> (target, st)
      | Some p \<Rightarrow>
          if pathEquals E p target then
            (let tmpPath = temporarySibling E P target in
             (tmpPath,
              touchTmpFile tmpPath
                (st\<lparr>exportAliases :=
                      exportAliases st @ [\<lparr>aliasSource = tmpPath, aliasTarget = target\<rparr>]\<rparr>)))
          else (target, st))"

definition entryTitleOf :: "ProjectScope \<Rightarrow> EntryObject \<Rightarrow> FileMetadata option \<Rightarrow> string option" where
  "entryTitleOf P entry md =
     nullish (entryTitleField entry) (nullish (metadataTitle md) (projectTitle P))"

text \<open>The contents branch (lines 903 to 944).\<close>

definition parseContentsEntry ::
  "env \<Rightarrow> ProjectScope \<Rightarrow> EntryObject \<Rightarrow> state \<Rightarrow> error + (ParsedEntry \<times> state)" where
  "parseContentsEntry E P entry st =
     (case optionalInputInfo E P entry st of
        Inl e \<Rightarrow> Inl e
      | Inr (info, st1) \<Rightarrow>
     (case optionalTarget E P entry info of
        Inl e \<Rightarrow> Inl e
      | Inr target0 \<Rightarrow>
     (case resolveEntryThemes E P entry (metadataOf info) (rootThemes (scopeCommon P)) st1 of
        Inl e \<Rightarrow> Inl e
      | Inr (themes, st2) \<Rightarrow>
     (case avoidCollision E P info
             (case target0 of None \<Rightarrow> resolvedTocTarget (tocConfig P) | Some t \<Rightarrow> t)
             (addThemes themes st2) of
        (target, st3) \<Rightarrow>
          Inr (Contents
                 \<lparr>contentsTitle = entryTitleOf P entry (metadataOf info),
                  contentsThemes = themes,
                  contentsTemplate = map_option sourceOf info,
                  contentsTarget = target,
                  tocTitle = resolvedTocTitle (tocConfig P),
                  sectionDepth = resolvedSectionDepth (tocConfig P),
                  transformDocumentList = resolvedTransformDocumentList (tocConfig P),
                  transformSectionList = resolvedTransformSectionList (tocConfig P),
                  contentsPageBreakBefore = entryPageBreakBefore entry,
                  pageCounterReset = entryPageCounterReset entry\<rparr>, st3)))))"

text \<open>\<open>ensureCoverImage\<close>: a truthy source is resolved against the entry context
  directory and must exist; a falsy one is returned as it is.\<close>

definition ensureCoverImage ::
  "env \<Rightarrow> string \<Rightarrow> string option \<Rightarrow> state \<Rightarrow> error + string option" where
  "ensureCoverImage E entryCtx src st =
     (case src of
        None \<Rightarrow> Inr None
      | Some s \<Rightarrow>
          if s = [] then Inr None
          else
            (case statFileSync E st (Some ''Specified cover image does not exist'')
                    (resolve (cwd E) [entryCtx, s]) of
               Some e \<Rightarrow> Inl e
             | None \<Rightarrow> Inr (Some (resolve (cwd E) [entryCtx, s]))))"

definition missingCoverMessage :: string where
  "missingCoverMessage =
     ''A CoverEntryObject is set in the entry list but a location of cover file is not set. Please set ''
     @ [CHR 0x27] @ ''cover'' @ [CHR 0x27] @ '' property in your config file.''"

text \<open>\<open>cover?.src\<close>, \<open>cover?.htmlPath\<close> and \<open>cover?.name\<close>.\<close>

definition coverSrcOf :: "ProjectScope \<Rightarrow> string option" where
  "coverSrcOf P = map_option resolvedCoverSrc (cover (scopeCommon P))"

definition coverHtmlPathOf :: "ProjectScope \<Rightarrow> string option" where
  "coverHtmlPathOf P =
     (case cover (scopeCommon P) of None \<Rightarrow> None | Some c \<Rightarrow> resolvedCoverHtmlPath c)"

definition coverNameOf :: "ProjectScope \<Rightarrow> string option" where
  "coverNameOf P = map_option resolvedCoverName (cover (scopeCommon P))"

text \<open>The value of \<open>a || b || c\<close> with a last operand that is a constant.\<close>

definition orDefault :: "string option \<Rightarrow> string \<Rightarrow> string" where
  "orDefault a d = (case a of None \<Rightarrow> d | Some s \<Rightarrow> if s = [] then d else s)"

text \<open>The cover branch (lines 946 to 996).\<close>

definition parseCoverEntry ::
  "env \<Rightarrow> ProjectScope \<Rightarrow> EntryObject \<Rightarrow> state \<Rightarrow> error + (ParsedEntry \<times> state)" where
  "parseCoverEntry E P entry st =
     (case optionalInputInfo E P entry st of
        Inl e \<Rightarrow> Inl e
      | Inr (info, st1) \<Rightarrow>
     (case optionalTarget E P entry info of
        Inl e \<Rightarrow> Inl e
      | Inr target0 \<Rightarrow>
     (case resolveEntryThemes E P entry (metadataOf info) [] st1 of
        Inl e \<Rightarrow> Inl e
      | Inr (themes, st2) \<Rightarrow>
     (case ensureCoverImage E (entryContextDir (scopeCommon P))
             (orElse (imageSrc entry) (coverSrcOf P)) (addThemes themes st2) of
        Inl e \<Rightarrow> Inl e
      | Inr None \<Rightarrow> Inl (Error missingCoverMessage)
      | Inr (Some coverImage) \<Rightarrow>
     (case avoidCollision E P info
             (case target0 of
                None \<Rightarrow>
                  resolve (cwd E)
                    [workspaceDir (scopeCommon P),
                     orDefault (orElse (entryPath entry) (coverHtmlPathOf P))
                       (COVER_HTML_FILENAME E)]
              | Some t \<Rightarrow> t)
             (addThemes themes st2) of
        (target, st3) \<Rightarrow>
          Inr (Cover
                 \<lparr>coverTitle = entryTitleOf P entry (metadataOf info),
                  coverThemes = themes,
                  coverTemplate = map_option sourceOf info,
                  coverTarget = target,
                  coverImageSrc = coverImage,
                  coverImageAlt =
                    orDefault (orElse (imageAlt entry) (coverNameOf P)) (COVER_HTML_IMAGE_ALT E),
                  coverPageBreakBefore = entryPageBreakBefore entry\<rparr>, st3))))))"

text \<open>Whether the steps of the cover branch that come before the cover image check
  succeed: the input of the entry, its target and its themes.\<close>

definition coverInputsResolve :: "env \<Rightarrow> ProjectScope \<Rightarrow> EntryObject \<Rightarrow> state \<Rightarrow> bool" where
  "coverInputsResolve E P entry0 st0 =
     (case reinterpretMissingPath E P entry0 st0 of
        (entry, st) \<Rightarrow>
          (case optionalInputInfo E P entry st of
             Inl e \<Rightarrow> False
           | Inr (info, st1) \<Rightarrow>
               (case optionalTarget E P entry info of
                  Inl e \<Rightarrow> False
                | Inr target0 \<Rightarrow>
                    (case resolveEntryThemes E P entry (metadataOf info) [] st1 of
                       Inl e \<Rightarrow> False
                     | Inr x \<Rightarrow> True))))"

text \<open>\<open>entry.rel && { rel: entry.rel }\<close>: an empty string is falsy.\<close>

definition relOf :: "EntryObject \<Rightarrow> RelValue option" where
  "relOf entry = (if entryRel entry = Some (RelString []) then None else entryRel entry)"

text \<open>The manuscript branch (lines 998 to 1023). The type of an article entry has a
  \<open>path\<close>; without one, \<open>entryPath.startsWith\<close> raises a \<open>TypeError\<close>.\<close>

definition parseArticleEntry ::
  "env \<Rightarrow> ProjectScope \<Rightarrow> EntryObject \<Rightarrow> state \<Rightarrow> error + (ParsedEntry \<times> state)" where
  "parseArticleEntry E P entry st =
     (case entryPath entry of
        None \<Rightarrow> Inl (TypeError ''Cannot read properties of undefined'')
      | Some path \<Rightarrow>
     (case getInputInfo E P entry path st of
        Inl e \<Rightarrow> Inl e
      | Inr (info, st1) \<Rightarrow>
     (case (if truthy (entryOutput entry)
            then Inr (resolve (cwd E)
                        [workspaceDir (scopeCommon P), orDefault (entryOutput entry) []])
            else getTargetPath E P (sourceOf info)) of
        Inl e \<Rightarrow> Inl e
      | Inr target \<Rightarrow>
     (case resolveEntryThemes E P entry (metadataOf (Some info)) (rootThemes (scopeCommon P)) st1 of
        Inl e \<Rightarrow> Inl e
      | Inr (themes, st2) \<Rightarrow>
          Inr (Manuscript
                 \<lparr>contentType =
                    (case info of FileInput p ct md \<Rightarrow> ct | UriInput h r \<Rightarrow> ''text/html''),
                  manuscriptTitle = entryTitleOf P entry (metadataOf (Some info)),
                  manuscriptThemes = themes,
                  manuscriptSource = sourceOf info,
                  manuscriptTarget = target,
                  manuscriptRel = relOf entry\<rparr>, addThemes themes st2)))))"

definition parseEntry ::
  "env \<Rightarrow> ProjectScope \<Rightarrow> EntryObject \<Rightarrow> state \<Rightarrow> error + (ParsedEntry \<times> state)" where
  "parseEntry E P entry0 st0 =
     (case reinterpretMissingPath E P entry0 st0 of
        (entry, st) \<Rightarrow>
          if isContentsEntry entry then parseContentsEntry E P entry st
          else if isCoverEntry entry then parseCoverEntry E P entry st
          else parseArticleEntry E P entry st)"

text \<open>\<open>config.entry.map(parseEntry)\<close>: in declaration order; the first error ends
  the call.\<close>

fun parseEntries ::
  "env \<Rightarrow> ProjectScope \<Rightarrow> EntryObject list \<Rightarrow> state \<Rightarrow> error + (ParsedEntry list \<times> state)" where
  "parseEntries E P [] st = Inr ([], st)"
| "parseEntries E P (x # xs) st =
     (case parseEntry E P x st of
        Inl e \<Rightarrow> Inl e
      | Inr (y, st') \<Rightarrow>
          (case parseEntries E P xs st' of
             Inl e \<Rightarrow> Inl e
           | Inr (ys, st'') \<Rightarrow> Inr (y # ys, st'')))"

section \<open>The Plan Composer\<close>

text \<open>The decimal digits of a number, for \<open>${server.port}\<close> and \<open>${Date.now()}\<close>.\<close>

definition digitChar :: "nat \<Rightarrow> char" where
  "digitChar d =
     (if d = 0 then CHR ''0'' else if d = 1 then CHR ''1'' else if d = 2 then CHR ''2''
      else if d = 3 then CHR ''3'' else if d = 4 then CHR ''4'' else if d = 5 then CHR ''5''
      else if d = 6 then CHR ''6'' else if d = 7 then CHR ''7'' else if d = 8 then CHR ''8''
      else CHR ''9'')"

fun digitsOf :: "nat \<Rightarrow> string" where
  "digitsOf n =
     (if n < 10 then [digitChar n]
      else digitsOf (n div 10) @ [digitChar (n mod 10)])"

declare digitsOf.simps [simp del]

definition hostName :: "Host \<Rightarrow> string" where
  "hostName h =
     (case h of
        HostBool b \<Rightarrow> if b then ''0.0.0.0'' else ''localhost''
      | HostName s \<Rightarrow> if s = [] then ''localhost'' else s)"

definition isContents :: "ParsedEntry \<Rightarrow> bool" where
  "isContents e = (case e of Contents c \<Rightarrow> True | _ \<Rightarrow> False)"

definition isCover :: "ParsedEntry \<Rightarrow> bool" where
  "isCover e = (case e of Cover c \<Rightarrow> True | _ \<Rightarrow> False)"

definition projectScope :: "env \<Rightarrow> CommonOpts \<Rightarrow> ParsedBuildTask \<Rightarrow> state \<Rightarrow> ProjectScope" where
  "projectScope E co config st =
     (let pkgJsonPath = resolve (cwd E) [entryContextDir co, ''package.json''];
          pkgJson = (if existsSync E st pkgJsonPath then readJSON E pkgJsonPath else None);
          toc = configToc config
      in \<lparr>scopeCommon = co,
          localOrigin = ''http://'' @ hostName (host co) @ '':'' @ digitsOf (port co),
          tocConfig =
            \<lparr>resolvedTocTitle =
               (case nullish (case toc of None \<Rightarrow> None | Some t \<Rightarrow> tocConfigTitle t)
                       (configTocTitle config) of
                  None \<Rightarrow> TOC_TITLE E | Some t \<Rightarrow> t),
             resolvedTocTarget =
               resolve (cwd E)
                 [workspaceDir co,
                  (case (case toc of None \<Rightarrow> None | Some t \<Rightarrow> tocHtmlPath t) of
                     None \<Rightarrow> TOC_FILENAME E | Some h \<Rightarrow> h)],
             resolvedSectionDepth =
               (case (case toc of None \<Rightarrow> None | Some t \<Rightarrow> tocSectionDepth t) of
                  None \<Rightarrow> 0 | Some d \<Rightarrow> d),
             resolvedTransformDocumentList =
               (case toc of None \<Rightarrow> None | Some t \<Rightarrow> tocTransformDocumentList t),
             resolvedTransformSectionList =
               (case toc of None \<Rightarrow> None | Some t \<Rightarrow> tocTransformSectionList t)\<rparr>,
          projectTitle =
            nullish (configTitle config) (case pkgJson of None \<Rightarrow> None | Some j \<Rightarrow> pkgName j)\<rparr>)"

definition projectAuthor :: "env \<Rightarrow> CommonOpts \<Rightarrow> ParsedBuildTask \<Rightarrow> state \<Rightarrow> string option" where
  "projectAuthor E co config st =
     (let pkgJsonPath = resolve (cwd E) [entryContextDir co, ''package.json''];
          pkgJson = (if existsSync E st pkgJsonPath then readJSON E pkgJsonPath else None)
      in nullish (configAuthor config) (case pkgJson of None \<Rightarrow> None | Some j \<Rightarrow> pkgAuthor j))"

text \<open>The fallback title (lines 1031 to 1038). \<open>outputs[0].path\<close> of an empty output
  list raises a \<open>TypeError\<close>.\<close>

definition fallbackProjectTitle ::
  "ProjectScope \<Rightarrow> ParsedEntry list \<Rightarrow> error + string option" where
  "fallbackProjectTitle P es =
     (if \<not> truthy (projectTitle P) then
        (case es of
           [e] \<Rightarrow>
             if truthy (entryTitle e) then Inr (entryTitle e)
             else (case outputs (scopeCommon P) of
                     [] \<Rightarrow> Inl (TypeError ''Cannot read properties of undefined'')
                   | out # rest \<Rightarrow> Inr (Some (basename (outputPath out))))
         | _ \<Rightarrow>
             (case outputs (scopeCommon P) of
                [] \<Rightarrow> Inl (TypeError ''Cannot read properties of undefined'')
              | out # rest \<Rightarrow> Inr (Some (basename (outputPath out)))))
      else Inr None)"

text \<open>The table of contents put in front when one is configured and no entry is a
  contents entry (lines 1039 to 1045).\<close>

definition unshiftContents :: "ProjectScope \<Rightarrow> ParsedBuildTask \<Rightarrow> ParsedEntry list \<Rightarrow> ParsedEntry list" where
  "unshiftContents P config es =
     (if configToc config \<noteq> None \<and> \<not> list_ex isContents es then
        Contents
          \<lparr>contentsTitle = None,
           contentsThemes = rootThemes (scopeCommon P),
           contentsTemplate = None,
           contentsTarget = resolvedTocTarget (tocConfig P),
           tocTitle = resolvedTocTitle (tocConfig P),
           sectionDepth = resolvedSectionDepth (tocConfig P),
           transformDocumentList = resolvedTransformDocumentList (tocConfig P),
           transformSectionList = resolvedTransformSectionList (tocConfig P),
           contentsPageBreakBefore = None,
           pageCounterReset = None\<rparr> # es
      else es)"

text \<open>The cover put in front when the project cover has an HTML path and no entry is a
  cover entry (lines 1046 to 1055). \<open>ensureCoverImage(cover.src)!\<close> asserts a value;
  the source of a resolved cover is a resolved path and never empty.\<close>

definition unshiftCover ::
  "env \<Rightarrow> ProjectScope \<Rightarrow> ParsedEntry list \<Rightarrow> state \<Rightarrow> error + ParsedEntry list" where
  "unshiftCover E P es st =
     (case cover (scopeCommon P) of
        None \<Rightarrow> Inr es
      | Some c \<Rightarrow>
          if truthy (resolvedCoverHtmlPath c) \<and> \<not> list_ex isCover es then
            (case ensureCoverImage E (entryContextDir (scopeCommon P))
                    (Some (resolvedCoverSrc c)) st of
               Inl e \<Rightarrow> Inl e
             | Inr img \<Rightarrow>
                 Inr (Cover
                        \<lparr>coverTitle = projectTitle P,
                         coverThemes = [],
                         coverTemplate = None,
                         coverTarget = orDefault (resolvedCoverHtmlPath c) [],
                         coverImageSrc = orDefault img [],
                         coverImageAlt = resolvedCoverName c,
                         coverPageBreakBefore = None\<rparr> # es))
          else Inr es)"

definition composeProjectConfig ::
  "env \<Rightarrow> CommonOpts \<Rightarrow> ParsedBuildTask \<Rightarrow> state \<Rightarrow> error + (ResolvedTaskConfig \<times> state)" where
  "composeProjectConfig E co config st =
     (let P = projectScope E co config st in
      case parseEntries E P (configEntry config) (st\<lparr>exportAliases := []\<rparr>) of
        Inl e \<Rightarrow> Inl e
      | Inr (es, st1) \<Rightarrow>
     (case fallbackProjectTitle P es of
        Inl e \<Rightarrow> Inl e
      | Inr fallbackTitle \<Rightarrow>
     (case unshiftCover E P (unshiftContents P config es) st1 of
        Inl e \<Rightarrow> Inl e
      | Inr es' \<Rightarrow>
          Inr (\<lparr>common = co,
                entries = es',
                inputFormatOf = PubManifest,
                inputEntryOf = join [workspaceDir co, MANIFEST_FILENAME E],
                viewerInput =
                  WebPublicationManifestConfig (join [workspaceDir co, MANIFEST_FILENAME E]) True,
                resolvedThemeIndexes = themeIndexes st1,
                resolvedExportAliases = exportAliases st1,
                title = orElse (projectTitle P) fallbackTitle,
                author = projectAuthor E co config st\<rparr>, st1))))"

text \<open>Single-input mode. The source path (lines 642 to 648): an entry that is not a
  valid URI is taken as it is; one that is a valid URI is resolved against the entry
  context directory and must exist.\<close>

definition singleSourcePath :: "env \<Rightarrow> CommonOpts \<Rightarrow> InputOption \<Rightarrow> state \<Rightarrow> error + string" where
  "singleSourcePath E co input st =
     (if \<not> isValidUri E (inputEntry input) then Inr (inputEntry input)
      else
        (case statFileSync E st None (resolve (cwd E) [entryContextDir co, inputEntry input]) of
           Some e \<Rightarrow> Inl e
         | None \<Rightarrow> Inr (resolve (cwd E) [entryContextDir co, inputEntry input])))"

text \<open>The temporary target of a single markdown input (lines 658 to 665) and the
  path its alias leads back to (lines 682 to 685).\<close>

definition singleTarget :: "env \<Rightarrow> CommonOpts \<Rightarrow> string \<Rightarrow> string" where
  "singleTarget E co sourcePath =
     replaceMdExt
       (resolve (cwd E)
          [workspaceDir co,
           relative (cwd E) (entryContextDir co) (dirname sourcePath),
           temporaryFilePrefix co @ basename sourcePath])"

definition singleAliasTarget :: "env \<Rightarrow> CommonOpts \<Rightarrow> string \<Rightarrow> string" where
  "singleAliasTarget E co sourcePath =
     resolve (cwd E)
       [dirname (singleTarget E co sourcePath), replaceMdExt (basename sourcePath)]"

text \<open>Lines 650 to 687: the entry and the alias of a markdown input.\<close>

definition singleMarkdownEntry ::
  "env \<Rightarrow> CommonOpts \<Rightarrow> string \<Rightarrow> state \<Rightarrow> error + (ParsedEntry list \<times> state)" where
  "singleMarkdownEntry E co sourcePath st =
     (case parseFileMetadata E ''text/markdown'' sourcePath (workspaceDir co) None st of
        Inl e \<Rightarrow> Inl e
      | Inr (metadata, st1) \<Rightarrow>
          (let target = singleTarget E co sourcePath;
               themes = (case fileThemes metadata of None \<Rightarrow> rootThemes co | Some ts \<Rightarrow> ts);
               st2 = addThemes themes (touchTmpFile target st1)
           in Inr ([Manuscript
                      \<lparr>contentType = ''text/markdown'',
                       manuscriptTitle = fileTitle metadata,
                       manuscriptThemes = themes,
                       manuscriptSource = FileEntrySource sourcePath ''text/markdown'',
                       manuscriptTarget = target,
                       manuscriptRel = None\<rparr>],
                   st2\<lparr>exportAliases :=
                         exportAliases st2
                         @ [\<lparr>aliasSource = target,
                             aliasTarget = singleAliasTarget E co sourcePath\<rparr>]\<rparr>)))"

text \<open>Lines 689 to 744: the viewer input and the fallback title by input format.\<close>

definition singleViewerInput ::
  "env \<Rightarrow> CommonOpts \<Rightarrow> InputFormat \<Rightarrow> string \<Rightarrow> ParsedEntry list \<Rightarrow> state
     \<Rightarrow> error + (ViewerInputConfig \<times> string option \<times> state)" where
  "singleViewerInput E co fmt sourcePath es st =
     (case fmt of
        Markdown \<Rightarrow>
          (let mPath = resolve (cwd E)
                         [workspaceDir co, temporaryFilePrefix co @ MANIFEST_FILENAME E];
               st1 = touchTmpFile mPath st
           in Inr (WebPublicationManifestConfig mPath True,
                   (case es of
                      [e] \<Rightarrow> if truthy (entryTitle e) then entryTitle e
                             else Some (basename sourcePath)
                    | _ \<Rightarrow> Some (basename sourcePath)),
                   st1\<lparr>exportAliases :=
                         exportAliases st1
                         @ [\<lparr>aliasSource = mPath,
                             aliasTarget =
                               resolve (cwd E) [workspaceDir co, MANIFEST_FILENAME E]\<rparr>]\<rparr>))
      | Webbook \<Rightarrow>
          (case (if isValidUri E sourcePath then newURL E sourcePath
                 else Some (pathToFileURL E sourcePath)) of
             None \<Rightarrow> Inl (TypeError ''Invalid URL'')
           | Some url \<Rightarrow>
               Inr (WebBookEntryConfig
                      (hrefOf E
                         (if isHttpLike (protocol url) \<and> \<not> endsWith (urlPathname url) ''/''
                             \<and> \<not> hasHtmlExt (urlPathname url)
                          then url\<lparr>urlPathname := urlPathname url @ ''/''\<rparr>
                          else url)),
                    None, st))
      | PubManifest \<Rightarrow> Inr (WebPublicationManifestConfig sourcePath False, None, st)
      | EpubOpfFormat \<Rightarrow> Inr (EpubOpfEntryConfig sourcePath, None, st)
      | EpubFormat \<Rightarrow>
          Inr (EpubEntryConfig sourcePath
                 (join [sourcePath, ''../'' @ temporaryFilePrefix co @ basename sourcePath]),
               None, st))"

definition composeSingleInputConfig ::
  "env \<Rightarrow> CommonOpts \<Rightarrow> ParsedBuildTask \<Rightarrow> InputOption \<Rightarrow> state
     \<Rightarrow> error + (ResolvedTaskConfig \<times> state)" where
  "composeSingleInputConfig E co config input st =
     (case singleSourcePath E co input st of
        Inl e \<Rightarrow> Inl e
      | Inr sourcePath \<Rightarrow>
     (case (if inputFormat input = Markdown
            then singleMarkdownEntry E co sourcePath (st\<lparr>exportAliases := []\<rparr>)
            else Inr ([], st\<lparr>exportAliases := []\<rparr>)) of
        Inl e \<Rightarrow> Inl e
      | Inr (es, st1) \<Rightarrow>
     (case singleViewerInput E co (inputFormat input) sourcePath es st1 of
        Inl e \<Rightarrow> Inl e
      | Inr (vi, fallbackTitle, st2) \<Rightarrow>
          Inr (\<lparr>common = co,
                entries = es,
                inputFormatOf = inputFormat input,
                inputEntryOf = sourcePath,
                viewerInput = vi,
                resolvedThemeIndexes = themeIndexes st2,
                resolvedExportAliases = exportAliases st2,
                title = orElse (configTitle config) fallbackTitle,
                author = configAuthor config\<rparr>, st2))))"

section \<open>\<open>resolveTaskConfig\<close>\<close>

definition resolveCover :: "env \<Rightarrow> string \<Rightarrow> string \<Rightarrow> CoverConfig \<Rightarrow> ResolvedCover" where
  "resolveCover E entryCtx wsDir c =
     \<lparr>resolvedCoverSrc = resolve (cwd E) [entryCtx, coverSrc c],
      resolvedCoverName = orDefault (coverName c) (COVER_HTML_IMAGE_ALT E),
      resolvedCoverHtmlPath =
        (case coverHtmlPath c of
           None \<Rightarrow> Some (resolve (cwd E) [wsDir, COVER_HTML_FILENAME E])
         | Some h \<Rightarrow>
             if \<not> truthy h then None
             else Some (resolve (cwd E) [wsDir, orDefault h (COVER_HTML_FILENAME E)]))\<rparr>"

text \<open>The directories (lines 418 to 430).\<close>

definition contextOf :: "env \<Rightarrow> InlineOptions \<Rightarrow> string" where
  "contextOf E options = (case optionCwd options of None \<Rightarrow> cwd E | Some c \<Rightarrow> c)"

definition entryContextOf :: "env \<Rightarrow> ParsedBuildTask \<Rightarrow> InlineOptions \<Rightarrow> string" where
  "entryContextOf E config options =
     (if truthy (configEntryContext config)
      then resolve (cwd E) [contextOf E options, orDefault (configEntryContext config) []]
      else contextOf E options)"

definition workspaceOf :: "env \<Rightarrow> ParsedBuildTask \<Rightarrow> InlineOptions \<Rightarrow> string" where
  "workspaceOf E config options =
     resolve (cwd E)
       [contextOf E options,
        (case configWorkspaceDir config of None \<Rightarrow> ''.vivliostyle'' | Some w \<Rightarrow> w)]"

definition themesDirOf :: "env \<Rightarrow> ParsedBuildTask \<Rightarrow> InlineOptions \<Rightarrow> string" where
  "themesDirOf E config options = resolve (cwd E) [workspaceOf E config options, ''themes'']"

text \<open>\<open>commonOpts\<close> (lines 573 to 611), from the parsed page size and the resolved
  root themes.\<close>

definition commonOpts ::
  "env \<Rightarrow> ParsedBuildTask \<Rightarrow> InlineOptions \<Rightarrow> PageSize option \<Rightarrow> ParsedTheme list \<Rightarrow> CommonOpts" where
  "commonOpts E config options sz roots =
     \<lparr>contextDir = contextOf E options,
      entryContextDir = entryContextOf E config options,
      workspaceDir = workspaceOf E config options,
      themesDir = themesDirOf E config options,
      outputs = resolveOutputs E config (contextOf E options),
      rootThemes = roots,
      temporaryFilePrefix =
        (case configTemporaryFilePrefix config of
           None \<Rightarrow> ''.vs-'' @ digitsOf (now E) @ ''.''
         | Some p \<Rightarrow> p),
      pageSize = sz,
      cover =
        map_option
          (resolveCover E (entryContextOf E config options) (workspaceOf E config options))
          (configCover config),
      host = (case (case configServer config of None \<Rightarrow> None | Some s \<Rightarrow> serverHost s) of
                None \<Rightarrow> HostBool False | Some h \<Rightarrow> h),
      port = (case (case configServer config of None \<Rightarrow> None | Some s \<Rightarrow> serverPort s) of
                None \<Rightarrow> 13000 | Some p \<Rightarrow> p)\<rparr>"

text \<open>\<open>!options.config && options.input ? composeSingleInputConfig(...) :
  composeProjectConfig(...)\<close>.\<close>

definition composeConfig ::
  "env \<Rightarrow> CommonOpts \<Rightarrow> ParsedBuildTask \<Rightarrow> InlineOptions \<Rightarrow> state
     \<Rightarrow> error + (ResolvedTaskConfig \<times> state)" where
  "composeConfig E co config options st =
     (case optionInput options of
        None \<Rightarrow> composeProjectConfig E co config st
      | Some input \<Rightarrow>
          if \<not> truthy (optionConfig options)
          then composeSingleInputConfig E co config input st
          else composeProjectConfig E co config st)"

text \<open>The page size is parsed first, then the root themes are resolved and become the
  first members of the theme index (\<open>new Set(rootThemes)\<close>).\<close>

definition resolveTaskConfig ::
  "env \<Rightarrow> ParsedBuildTask \<Rightarrow> InlineOptions \<Rightarrow> error + (ResolvedTaskConfig \<times> state)" where
  "resolveTaskConfig E config options =
     (case (if truthy (configSize config)
            then map_sum id Some (parsePageSize (orDefault (configSize config) []))
            else Inr None) of
        Inl e \<Rightarrow> Inl e
      | Inr sz \<Rightarrow>
     (case parseThemes E (case configTheme config of None \<Rightarrow> [] | Some ts \<Rightarrow> ts)
             (contextOf E options) (workspaceOf E config options)
             (themesDirOf E config options) initialState of
        Inl e \<Rightarrow> Inl e
      | Inr (roots, st) \<Rightarrow>
          composeConfig E (commonOpts E config options sz roots) config options
            (addThemes roots st)))"



section \<open>A concrete project, for evaluating the definitions\<close>

text \<open>A file system with a markdown manuscript, an HTML manuscript, an image and a
  stylesheet under \<open>/proj\<close>; media types by file extension; no front matter, no
  package metadata; \<open>isValidUri\<close> accepts the \<open>http\<close> and \<open>https\<close> schemes.\<close>

definition exampleMime :: "string \<Rightarrow> string option" where
  "exampleMime p =
     (if endsWith p ''.md'' then Some ''text/markdown''
      else if endsWith p ''.html'' then Some ''text/html''
      else if endsWith p ''.xhtml'' then Some ''application/xhtml+xml''
      else if endsWith p ''.png'' then Some ''image/png''
      else if endsWith p ''.css'' then Some ''text/css''
      else None)"

definition exampleURL :: "string \<Rightarrow> URL option" where
  "exampleURL s =
     (if s = ''https://example.com/doc'' then
        Some \<lparr>protocol = ''https:'', urlHost = ''example.com'', urlPathname = ''/doc'',
              urlRest = []\<rparr>
      else if s = ''http://localhost:13000/preview/page.html'' then
        Some \<lparr>protocol = ''http:'', urlHost = ''localhost:13000'',
              urlPathname = ''/preview/page.html'', urlRest = []\<rparr>
      else None)"

definition exampleFiles :: "string list" where
  "exampleFiles =
     [''/proj/sample.md'', ''/proj/docs/sample.md'', ''/proj/a.html'', ''/proj/image.png'',
      ''/proj/theme.css'', ''/proj/toc.html'', ''/proj/cover.html'']"

definition exampleEnv :: env where
  "exampleEnv =
     \<lparr>cwd = ''/proj'',
      now = 1,
      fileExists = (\<lambda>p. p \<in> set exampleFiles),
      readFile = (\<lambda>p. []),
      mime = exampleMime,
      isValidUri = isHttpLike,
      parsePackageName = (\<lambda>s c. None),
      packageJsonName = (\<lambda>p. None),
      readMarkdownMetadata = (\<lambda>p. \<lparr>metaTitle = None, metaTheme = None\<rparr>),
      readJSON = (\<lambda>p. None),
      newURL = exampleURL,
      newURLWithBase = (\<lambda>s b. exampleURL s),
      pathToFileURL =
        (\<lambda>p. \<lparr>protocol = ''file:'', urlHost = [], urlPathname = p, urlRest = []\<rparr>),
      hrefOf = (\<lambda>u. protocol u @ ''//'' @ urlHost u @ urlPathname u @ urlRest u),
      COVER_HTML_FILENAME = ''cover.html'',
      COVER_HTML_IMAGE_ALT = ''Cover image'',
      EPUB_OUTPUT_VERSION = ''3.0'',
      MANIFEST_FILENAME = ''publication.json'',
      TOC_FILENAME = ''index.html'',
      TOC_TITLE = ''Table of Contents''\<rparr>"

text \<open>A configuration with nothing set, and an entry with nothing but a path.\<close>

definition emptyConfig :: ParsedBuildTask where
  "emptyConfig =
     \<lparr>configEntry = [], configEntryContext = None, configWorkspaceDir = None,
      configTemporaryFilePrefix = None, configSize = None, configTheme = None,
      configOutput = None, configTitle = None, configAuthor = None,
      configPressReady = False, configCover = None, configToc = None,
      configTocTitle = None, configServer = None\<rparr>"

definition entryWithPath :: "string \<Rightarrow> EntryObject" where
  "entryWithPath p =
     \<lparr>entryRel = None, entryPath = Some p, entryOutput = None, entryTitleField = None,
      entryTheme = None, entryPageBreakBefore = None, entryPageCounterReset = None,
      imageSrc = None, imageAlt = None\<rparr>"

text \<open>A declared output with nothing but a format and a path; no inline options.\<close>

definition outputTarget :: "OutputFormat \<Rightarrow> string \<Rightarrow> OutputObject" where
  "outputTarget f p =
     \<lparr>targetPath = p, targetFormat = f, targetRenderMode = None, targetPreflight = None,
      targetPreflightOption = None\<rparr>"

definition noOptions :: InlineOptions where
  "noOptions = \<lparr>optionCwd = None, optionConfig = None, optionInput = None\<rparr>"

text \<open>The inline options of a single markdown input without a project file, and the
  common options that \<open>resolveTaskConfig\<close> derives from the empty configuration.\<close>

definition singleOptions :: "string \<Rightarrow> InlineOptions" where
  "singleOptions p =
     \<lparr>optionCwd = None, optionConfig = None,
      optionInput = Some \<lparr>inputFormat = Markdown, inputEntry = p\<rparr>\<rparr>"

definition defaultCommon :: CommonOpts where
  "defaultCommon = commonOpts exampleEnv emptyConfig noOptions None []"

text \<open>The options of a project whose workspace directory is the project directory
  itself (\<open>workspaceDir: '.'\<close>), and the scope of its entries.\<close>

definition exampleCommon :: CommonOpts where
  "exampleCommon =
     \<lparr>contextDir = ''/proj'', entryContextDir = ''/proj'', workspaceDir = ''/proj'',
      themesDir = ''/proj/themes'', outputs = [], rootThemes = [],
      temporaryFilePrefix = ''.vs-1.'', pageSize = None, cover = None,
      host = HostBool False, port = 13000\<rparr>"

definition exampleScope :: ProjectScope where
  "exampleScope = projectScope exampleEnv exampleCommon emptyConfig initialState"

text \<open>The same project with one root theme, already resolved and in the theme
  index.\<close>

definition exampleTheme :: ParsedTheme where
  "exampleTheme = FileTheme 0 ''theme.css'' ''/proj/theme.css'' ''/proj/theme.css''"

definition themedScope :: ProjectScope where
  "themedScope = exampleScope\<lparr>scopeCommon := exampleCommon\<lparr>rootThemes := [exampleTheme]\<rparr>\<rparr>"

definition themedState :: state where
  "themedState = initialState\<lparr>nextObject := 1, themeIndexes := [exampleTheme]\<rparr>"

text \<open>A contents entry and a cover entry with a path.\<close>

definition contentsWithPath :: "string \<Rightarrow> EntryObject" where
  "contentsWithPath p = (entryWithPath p)\<lparr>entryRel := Some (RelString ''contents'')\<rparr>"

definition coverWithPath :: "string \<Rightarrow> EntryObject" where
  "coverWithPath p = (entryWithPath p)\<lparr>entryRel := Some (RelString ''cover'')\<rparr>"

section \<open>Evaluation\<close>

text \<open>The definitions unfolded when a call is evaluated on the concrete project.\<close>

lemmas path_defs =
  resolve_def resolveSegs_def toUnix_def splitSlash_def slash_def backslash_def relative_def
  normalize_def join_def basename_def dirname_def endsWith_def startsWith_def replaceMdExt_def
  isHttpLike_def hasHtmlExt_def stripTrailingSlash_def

lemmas example_defs =
  exampleEnv_def exampleCommon_def emptyConfig_def initialState_def exampleFiles_def
  exampleMime_def exampleURL_def entryWithPath_def exampleScope_def outputTarget_def
  noOptions_def exampleTheme_def themedScope_def themedState_def contentsWithPath_def
  coverWithPath_def singleOptions_def defaultCommon_def

lemmas entry_defs =
  projectScope_def existsSync_def hostName_def nullish_def digitsOf.simps digitChar_def
  parseEntry_def reinterpretMissingPath_def isContentsEntry_def isCoverEntry_def
  isArticleEntry_def parseArticleEntry_def parseContentsEntry_def parseCoverEntry_def
  getInputInfo_def getTargetPath_def statFileSync_def isManuscriptMediaType_def
  manuscriptMediaTypes_def mimeToString_def entryToString_def parseFileMetadata_def
  orElse_def orDefault_def resolveEntryThemes_def metadataThemes_def metadataTitle_def
  entryTitleOf_def addThemes_def setAdd_def relOf_def optionalInputInfo_def
  optionalTarget_def avoidCollision_def inputPathname_def temporarySibling_def
  pathEquals_def touchTmpFile_def logWarn_def missingPathWarning_def ensureCoverImage_def
  missingCoverMessage_def coverSrcOf_def coverHtmlPathOf_def coverNameOf_def parseTheme_def
  allocate_def coverInputsResolve_def Let_def

lemmas compose_defs =
  resolveOutputs_def resolveOutput_def defaultPreflight_def resolveTaskConfig_def
  contextOf_def entryContextOf_def workspaceOf_def themesDirOf_def commonOpts_def
  composeConfig_def
  composeProjectConfig_def composeSingleInputConfig_def singleSourcePath_def singleTarget_def
  singleAliasTarget_def singleMarkdownEntry_def singleViewerInput_def
  fallbackProjectTitle_def unshiftContents_def unshiftCover_def projectAuthor_def
  resolveCover_def parsePageSize_def splitComma_def isContents_def isCover_def

section \<open>Facts about paths\<close>

lemma splitOn_nonempty: "splitOn sep cur s \<noteq> []"
  by (induction s arbitrary: cur) auto

lemma joinSlash_splitOn: "joinSlash (splitOn slash cur xs) = rev cur @ xs"
proof (induction xs arbitrary: cur)
  case Nil
  then show ?case by simp
next
  case (Cons c cs)
  show ?case
  proof (cases "c = slash")
    case True
    obtain t ts where sp: "splitOn slash [] cs = t # ts"
      by (cases "splitOn slash [] cs") (use splitOn_nonempty in auto)
    have "joinSlash (t # ts) = cs" using Cons.IH[of "[]"] sp by simp
    with True sp show ?thesis by simp
  next
    case False
    with Cons.IH[of "c # cur"] show ?thesis by simp
  qed
qed

lemma splitOn_append_sep:
  "sep \<notin> set xs \<Longrightarrow> splitOn sep cur (xs @ sep # ys) = (rev cur @ xs) # splitOn sep [] ys"
  by (induction xs arbitrary: cur) auto

lemma splitOn_no_sep: "sep \<notin> set xs \<Longrightarrow> splitOn sep cur xs = [rev cur @ xs]"
  by (induction xs arbitrary: cur) auto

lemma splitOn_pieces:
  "s \<in> set (splitOn sep cur xs) \<Longrightarrow> sep \<notin> set cur \<Longrightarrow> sep \<notin> set s \<and> set s \<subseteq> set cur \<union> set xs"
proof (induction xs arbitrary: cur)
  case Nil
  then show ?case by auto
next
  case (Cons c cs)
  show ?case
  proof (cases "c = sep")
    case True
    with Cons.prems have "s = rev cur \<or> s \<in> set (splitOn sep [] cs)" by auto
    then show ?thesis
    proof
      assume "s = rev cur" with Cons.prems show ?thesis by auto
    next
      assume "s \<in> set (splitOn sep [] cs)"
      from Cons.IH[OF this] show ?thesis by auto
    qed
  next
    case False
    with Cons.prems have "s \<in> set (splitOn sep (c # cur) cs)" by simp
    from Cons.IH[OF this] False Cons.prems(2) show ?thesis by auto
  qed
qed


lemma split_join_trailing:
  "\<forall>s \<in> set segs. s \<noteq> [] \<and> slash \<notin> set s \<Longrightarrow>
   filter (\<lambda>s. s \<noteq> []) (splitOn slash [] (joinSlash segs @ [slash])) = segs"
proof (induction segs rule: joinSlash.induct)
  case 1
  then show ?case by simp
next
  case (2 s)
  then show ?case by (simp add: splitOn_append_sep)
next
  case (3 s t ss)
  then have "filter (\<lambda>s. s \<noteq> []) (splitOn slash [] (joinSlash (t # ss) @ [slash])) = t # ss"
    by simp
  moreover have "joinSlash (s # t # ss) @ [slash] = s @ slash # (joinSlash (t # ss) @ [slash])"
    by simp
  ultimately show ?case using 3(2) by (simp add: splitOn_append_sep del: joinSlash.simps)
qed

lemma normalizeSegs_filter:
  "normalizeSegs a acc (filter (\<lambda>s. s \<noteq> []) xs) = normalizeSegs a acc xs"
  by (induction xs arbitrary: acc) (auto split: list.splits)

lemma normalizeSegs_clean:
  "\<forall>s \<in> set segs. s \<noteq> [] \<and> s \<noteq> ''.'' \<and> s \<noteq> ''..'' \<Longrightarrow>
   normalizeSegs a acc segs = rev acc @ segs"
  by (induction segs arbitrary: acc) auto

lemma normalizeSegs_pieces:
  "s \<in> set (normalizeSegs False acc xs) \<Longrightarrow>
   (s \<in> set acc \<or> (s \<in> set xs \<and> s \<noteq> [] \<and> s \<noteq> ''.'' \<and> s \<noteq> ''..''))"
proof (induction xs arbitrary: acc)
  case Nil
  then show ?case by simp
next
  case (Cons x xs)
  show ?case
  proof (cases "x = [] \<or> x = ''.''")
    case True
    with Cons.prems have "s \<in> set (normalizeSegs False acc xs)" by auto
    from Cons.IH[OF this] show ?thesis by auto
  next
    case nd: False
    show ?thesis
    proof (cases "x = ''..''")
      case True
      show ?thesis
      proof (cases acc)
        case Nil
        with True Cons.prems have "s \<in> set (normalizeSegs False [] xs)" by simp
        from Cons.IH[OF this] Nil show ?thesis by auto
      next
        case (Cons t ts)
        show ?thesis
        proof (cases "t = ''..''")
          case tt: True
          with True Cons Cons.prems nd have "s \<in> set (normalizeSegs False acc xs)" by simp
          from Cons.IH[OF this] show ?thesis by auto
        next
          case False
          with True Cons Cons.prems nd have "s \<in> set (normalizeSegs False ts xs)" by simp
          from Cons.IH[OF this] Cons show ?thesis by auto
        qed
      qed
    next
      case False
      with nd Cons.prems have "s \<in> set (normalizeSegs False (x # acc) xs)" by simp
      from Cons.IH[OF this] nd False show ?thesis by auto
    qed
  qed
qed

lemma collapseSlashes_prefix:
  "slash \<notin> set xs \<Longrightarrow> collapseSlashes (xs @ ys) = xs @ collapseSlashes ys"
proof (induction xs)
  case Nil
  then show ?case by simp
next
  case (Cons x xs)
  then show ?case by (cases "xs @ ys") auto
qed

lemma collapseSlashes_join:
  "\<forall>s \<in> set segs. s \<noteq> [] \<and> slash \<notin> set s \<Longrightarrow>
   collapseSlashes (joinSlash segs) = joinSlash segs"
proof (induction segs rule: joinSlash.induct)
  case 1
  then show ?case by simp
next
  case (2 s)
  then show ?case using collapseSlashes_prefix[of s "[]"] by simp
next
  case (3 s t ss)
  then have ih: "collapseSlashes (joinSlash (t # ss)) = joinSlash (t # ss)" by simp
  from 3(2) have t: "t \<noteq> []" "slash \<notin> set t" by auto
  obtain c cs where tj: "joinSlash (t # ss) = c # cs" and c: "c \<noteq> slash"
    using t by (cases t; cases ss) auto
  have "collapseSlashes (slash # joinSlash (t # ss)) = slash # joinSlash (t # ss)"
    using ih tj c by simp
  moreover from 3(2) have "slash \<notin> set s" by simp
  ultimately show ?case
    using collapseSlashes_prefix[of s "slash # joinSlash (t # ss)"] by simp
qed

lemma toUnix_clean:
  "backslash \<notin> set p \<Longrightarrow> toUnix p = (case p of [] \<Rightarrow> [] | c # r \<Rightarrow> c # collapseSlashes r)"
proof -
  assume "backslash \<notin> set p"
  then have "map (\<lambda>c. if c = backslash then slash else c) p = p"
    by (induction p) auto
  then show ?thesis by (simp add: toUnix_def)
qed

lemma toUnix_resolved:
  assumes "\<forall>s \<in> set segs. cleanSeg s"
  shows "toUnix (slash # joinSlash segs) = slash # joinSlash segs"
proof -
  have bs: "backslash \<notin> set (joinSlash segs)"
    using assms by (induction segs rule: joinSlash.induct) (auto simp: cleanSeg_def slash_def backslash_def)
  have "backslash \<noteq> slash" by (simp add: slash_def backslash_def)
  with bs have "backslash \<notin> set (slash # joinSlash segs)" by auto
  from toUnix_clean[OF this] collapseSlashes_join[of segs] assms
  show ?thesis by (auto simp: cleanSeg_def)
qed

lemma toUnix_no_backslash: "backslash \<notin> set (toUnix p)"
proof -
  have c: "set (collapseSlashes r) \<subseteq> set r" for r
    by (induction r rule: collapseSlashes.induct) auto
  have m: "backslash \<notin> set (map (\<lambda>c. if c = backslash then slash else c) p)"
    by (auto simp: slash_def backslash_def)
  show ?thesis
  proof (cases "map (\<lambda>c. if c = backslash then slash else c) p")
    case Nil
    then show ?thesis by (simp add: toUnix_def)
  next
    case (Cons a r)
    with m c[of r] show ?thesis by (auto simp: toUnix_def)
  qed
qed


lemma split_join:
  "segs \<noteq> [] \<Longrightarrow> \<forall>s \<in> set segs. slash \<notin> set s \<Longrightarrow>
   splitOn slash [] (joinSlash segs) = segs"
proof (induction segs rule: joinSlash.induct)
  case 1
  then show ?case by simp
next
  case (2 s)
  then show ?case by (simp add: splitOn_no_sep)
next
  case (3 s t ss)
  then show ?case by (simp add: splitOn_append_sep)
qed

lemma resolveLoop_abs:
  "c \<noteq> [] \<Longrightarrow> hd c = slash \<Longrightarrow> snd (resolveLoop (xs @ [c])) = True"
  by (induction xs) (auto split: prod.splits)

lemma resolveLoop_chars:
  "set (fst (resolveLoop xs)) \<subseteq> (\<Union>x \<in> set xs. set x) \<union> {slash}"
  by (induction xs) (auto split: prod.splits)

lemma isResolved_iff:
  "isResolved p \<longleftrightarrow> (\<exists>segs. (\<forall>s \<in> set segs. cleanSeg s) \<and> p = slash # joinSlash segs)"
proof
  assume r: "isResolved p"
  then have p: "p = slash # tl p" by (cases p) (auto simp: isResolved_def)
  show "\<exists>segs. (\<forall>s \<in> set segs. cleanSeg s) \<and> p = slash # joinSlash segs"
  proof (cases "tl p = []")
    case True
    with p have "p = slash # joinSlash []" by simp
    then show ?thesis by (intro exI[of _ "[]"]) simp
  next
    case False
    with r have c: "list_all cleanSeg (splitSlash (tl p))" by (simp add: isResolved_def)
    have "joinSlash (splitSlash (tl p)) = tl p"
      using joinSlash_splitOn[of "[]" "tl p"] by (simp add: splitSlash_def)
    with p have "p = slash # joinSlash (splitSlash (tl p))" by simp
    with c show ?thesis by (intro exI[of _ "splitSlash (tl p)"]) (simp add: list_all_iff)
  qed
next
  assume "\<exists>segs. (\<forall>s \<in> set segs. cleanSeg s) \<and> p = slash # joinSlash segs"
  then obtain segs where c: "\<forall>s \<in> set segs. cleanSeg s" and p: "p = slash # joinSlash segs"
    by auto
  show "isResolved p"
  proof (cases segs)
    case Nil
    with p show ?thesis by (simp add: isResolved_def)
  next
    case (Cons a as)
    then have "splitOn slash [] (joinSlash segs) = segs"
      using split_join[of segs] c by (auto simp: cleanSeg_def)
    with p c show ?thesis by (simp add: isResolved_def splitSlash_def list_all_iff)
  qed
qed

lemma resolve_form:
  assumes "properCwd c"
  shows "\<exists>segs. (\<forall>s \<in> set segs. cleanSeg s) \<and> resolveSegs c args = (segs, True)
           \<and> resolve c args = slash # joinSlash segs"
proof -
  let ?xs = "rev (c # map toUnix args)"
  obtain r a where ra: "resolveLoop ?xs = (r, a)" by (cases "resolveLoop ?xs")
  have "snd (resolveLoop ?xs) = True"
    using assms resolveLoop_abs[of c "rev (map toUnix args)"] by (simp add: properCwd_def)
  with ra have a: "a = True" by simp
  have "set r \<subseteq> (\<Union>x \<in> set ?xs. set x) \<union> {slash}"
    using resolveLoop_chars[of ?xs] ra by simp
  moreover have "backslash \<notin> (\<Union>x \<in> set ?xs. set x)"
    using assms toUnix_no_backslash by (auto simp: properCwd_def)
  moreover have "backslash \<noteq> slash" by (simp add: slash_def backslash_def)
  ultimately have bs: "backslash \<notin> set r" by auto
  let ?segs = "normalizeSegs False [] (splitSlash r)"
  have clean: "\<forall>s \<in> set ?segs. cleanSeg s"
  proof
    fix s assume "s \<in> set ?segs"
    from normalizeSegs_pieces[OF this]
    have s: "s \<in> set (splitOn slash [] r)" "s \<noteq> []" "s \<noteq> ''.''" "s \<noteq> ''..''"
      by (auto simp: splitSlash_def)
    from splitOn_pieces[OF s(1)] have "slash \<notin> set s" "set s \<subseteq> set r" by auto
    with bs s show "cleanSeg s" by (auto simp: cleanSeg_def)
  qed
  have rs: "resolveSegs c args = (?segs, True)"
    using ra a by (simp add: resolveSegs_def)
  then have "resolve c args = toUnix (slash # joinSlash ?segs)"
    by (simp add: resolve_def)
  with toUnix_resolved[OF clean] rs clean show ?thesis by auto
qed

lemma resolve_isResolved: "properCwd c \<Longrightarrow> isResolved (resolve c args)"
  using resolve_form[of c args] by (auto simp: isResolved_iff)

lemma splitSlash_leading: "splitSlash (slash # rest) = [] # splitSlash rest"
  by (simp add: splitSlash_def)

lemma resolve_last_resolved:
  assumes "\<forall>s \<in> set segs. cleanSeg s"
  shows "resolve c (args @ [slash # joinSlash segs]) = slash # joinSlash segs"
proof -
  let ?p = "slash # joinSlash segs"
  have tu: "toUnix ?p = ?p" by (rule toUnix_resolved[OF assms])
  have loop: "resolveLoop (rev (c # map toUnix (args @ [?p]))) = (?p @ [slash], True)"
    using tu by simp
  have sl: "\<forall>s \<in> set segs. s \<noteq> [] \<and> slash \<notin> set s"
    using assms by (auto simp: cleanSeg_def)
  have "normalizeSegs False [] (splitSlash (?p @ [slash]))
        = normalizeSegs False [] (splitSlash (joinSlash segs @ [slash]))"
    using splitSlash_leading[of "joinSlash segs @ [slash]"] by simp
  also have "\<dots> = normalizeSegs False []
                  (filter (\<lambda>s. s \<noteq> []) (splitSlash (joinSlash segs @ [slash])))"
    by (simp only: normalizeSegs_filter)
  also have "\<dots> = normalizeSegs False [] segs"
    using split_join_trailing[OF sl] by (simp add: splitSlash_def)
  also have "\<dots> = segs"
    using normalizeSegs_clean[of segs False "[]"] assms by (auto simp: cleanSeg_def)
  finally have "resolveSegs c (args @ [?p]) = (segs, True)"
    using loop by (simp add: resolveSegs_def)
  then show ?thesis using tu by (simp add: resolve_def)
qed

lemma resolve_resolved:
  "isResolved p \<Longrightarrow> resolve c (args @ [p]) = p"
  using resolve_last_resolved by (auto simp: isResolved_iff)

section \<open>The three branches of \<open>parseEntry\<close>\<close>

lemma parseEntry_article:
  "isArticleEntry entry \<Longrightarrow> parseEntry E P entry st = parseArticleEntry E P entry st"
  by (simp add: parseEntry_def reinterpretMissingPath_def isArticleEntry_def)

lemma getInputInfo_file:
  assumes "getInputInfo E P entry p st = Inr (FileInput q ct md, st')"
  shows "mime E q = Some ct \<and> q = resolve (cwd E) [entryContextDir (scopeCommon P), p]
         \<and> \<not> isHttpLike p \<and> \<not> startsWith p ''/''"
  using assms
  by (auto simp: getInputInfo_def Let_def split: option.splits if_splits sum.splits)

lemma getInputInfo_uri:
  assumes "getInputInfo E P entry p st = Inr (UriInput h r, st')"
  shows "isHttpLike p \<or> startsWith p ''/''"
proof (rule ccontr)
  assume "\<not> ?thesis"
  with assms show False
    by (auto simp: getInputInfo_def Let_def split: option.splits if_splits sum.splits)
qed

lemma parseContentsEntry_kind:
  "parseContentsEntry E P entry st = Inr (e, st') \<Longrightarrow> \<exists>c. e = Contents c"
  by (auto simp: parseContentsEntry_def split: sum.splits prod.splits)

lemma parseCoverEntry_kind:
  "parseCoverEntry E P entry st = Inr (e, st') \<Longrightarrow> \<exists>c. e = Cover c"
  by (auto simp: parseCoverEntry_def split: sum.splits prod.splits option.splits)

lemma parseArticleEntry_result:
  assumes "parseArticleEntry E P entry st = Inr (e, st')"
  shows "\<exists>p info st1 m. entryPath entry = Some p
           \<and> getInputInfo E P entry p st = Inr (info, st1)
           \<and> e = Manuscript m \<and> manuscriptSource m = sourceOf info
           \<and> contentType m =
               (case info of FileInput q ct md \<Rightarrow> ct | UriInput h r \<Rightarrow> ''text/html'')"
  using assms
  by (auto simp: parseArticleEntry_def split: option.splits sum.splits prod.splits)

lemma reinterpret_kind:
  assumes "reinterpretMissingPath E P entry st = (entry', st0)"
  shows "isContentsEntry entry' = isContentsEntry entry \<and> isCoverEntry entry' = isCoverEntry entry"
  using assms
  by (auto simp: reinterpretMissingPath_def isContentsEntry_def isCoverEntry_def Let_def
      split: if_splits option.splits)

lemma parseEntry_manuscript:
  assumes "parseEntry E P entry st = Inr (Manuscript m, st')"
  shows "isArticleEntry entry \<and> parseArticleEntry E P entry st = Inr (Manuscript m, st')"
proof (cases "isArticleEntry entry")
  case True
  with assms show ?thesis by (simp add: parseEntry_article)
next
  case False
  obtain entry' st0 where r: "reinterpretMissingPath E P entry st = (entry', st0)"
    by (cases "reinterpretMissingPath E P entry st")
  note kind = reinterpret_kind[OF r]
  show ?thesis
  proof (cases "isContentsEntry entry")
    case True
    with assms r kind have "parseContentsEntry E P entry' st0 = Inr (Manuscript m, st')"
      by (simp add: parseEntry_def)
    from parseContentsEntry_kind[OF this] show ?thesis by simp
  next
    case nc: False
    with False have "isCoverEntry entry" by (simp add: isArticleEntry_def)
    with assms r kind nc have "parseCoverEntry E P entry' st0 = Inr (Manuscript m, st')"
      by (simp add: parseEntry_def)
    from parseCoverEntry_kind[OF this] show ?thesis by simp
  qed
qed

section \<open>The content type of a manuscript entry\<close>

text \<open>
  Claim C10. A manuscript entry that \<open>parseEntry\<close> resolves has a path. When the path
  starts with \<open>http:\<close> or \<open>https:\<close>, or with a slash (a page of the local preview
  server), the source of the resolved entry is a URI source and its content type is
  \<open>text/html\<close>, whatever the environment says about media types. Otherwise the
  source is a file source, and the content type is the media type detected for that
  file.
\<close>

theorem uri_manuscript_content_type:
  assumes "parseEntry E P entry st = Inr (Manuscript m, st')"
  shows "\<exists>p. entryPath entry = Some p \<and>
            (if isHttpLike p \<or> startsWith p ''/''
             then (\<exists>h r. manuscriptSource m = UriEntrySource h r)
                  \<and> contentType m = ''text/html''
             else (\<exists>q. manuscriptSource m = FileEntrySource q (contentType m)
                       \<and> mime E q = Some (contentType m)))"
proof -
  from parseEntry_manuscript[OF assms]
  have art: "parseArticleEntry E P entry st = Inr (Manuscript m, st')" by simp
  from parseArticleEntry_result[OF art] obtain p info st1 where
    p: "entryPath entry = Some p" and gi: "getInputInfo E P entry p st = Inr (info, st1)"
    and src: "manuscriptSource m = sourceOf info"
    and ct: "contentType m =
               (case info of FileInput q ct md \<Rightarrow> ct | UriInput h r \<Rightarrow> ''text/html'')"
    by auto
  show ?thesis
  proof (cases info)
    case (FileInput q c md)
    with getInputInfo_file[of E P entry p st q c md st1] gi
    have "mime E q = Some c" and "\<not> isHttpLike p" and "\<not> startsWith p ''/''" by auto
    with p src ct FileInput show ?thesis by auto
  next
    case (UriInput h r)
    with getInputInfo_uri[of E P entry p st h r st1] gi
    have "isHttpLike p \<or> startsWith p ''/''" by simp
    with p src ct UriInput show ?thesis by auto
  qed
qed

lemma example_remote_entry:
  "parseEntry exampleEnv exampleScope (entryWithPath ''https://example.com/doc'') initialState
   = Inr (Manuscript
            \<lparr>contentType = ''text/html'', manuscriptTitle = None, manuscriptThemes = [],
             manuscriptSource = UriEntrySource ''https://example.com/doc'' ''/proj/example.com'',
             manuscriptTarget = ''/proj/example.com/doc/index.html'', manuscriptRel = None\<rparr>,
          initialState)"
  by (simp add: path_defs example_defs entry_defs)

theorem uri_manuscript_content_type_witness:
  "parseEntry exampleEnv exampleScope (entryWithPath ''https://example.com/doc'') initialState
   = Inr (Manuscript
            \<lparr>contentType = ''text/html'', manuscriptTitle = None, manuscriptThemes = [],
             manuscriptSource = UriEntrySource ''https://example.com/doc'' ''/proj/example.com'',
             manuscriptTarget = ''/proj/example.com/doc/index.html'', manuscriptRel = None\<rparr>,
          initialState)
   \<and> (\<exists>p. entryPath (entryWithPath ''https://example.com/doc'') = Some p
          \<and> isHttpLike p)
   \<and> contentType
         \<lparr>contentType = ''text/html'', manuscriptTitle = None, manuscriptThemes = [],
          manuscriptSource = UriEntrySource ''https://example.com/doc'' ''/proj/example.com'',
          manuscriptTarget = ''/proj/example.com/doc/index.html'', manuscriptRel = None\<rparr>
       = ''text/html''"
  using uri_manuscript_content_type[OF example_remote_entry] example_remote_entry
  by (simp add: entryWithPath_def isHttpLike_def startsWith_def)

section \<open>The Output Target Normalizer\<close>

lemma outputPath_resolveOutput:
  "outputPath (resolveOutput E config ctx target) = resolve (cwd E) [ctx, targetPath target]"
  by (simp add: resolveOutput_def Let_def split: OutputFormat.splits)

lemma resolveOutput_path_only:
  "targetFormat t' = targetFormat t \<Longrightarrow> targetRenderMode t' = targetRenderMode t \<Longrightarrow>
   targetPreflight t' = targetPreflight t \<Longrightarrow> targetPreflightOption t' = targetPreflightOption t \<Longrightarrow>
   resolve (cwd E) [ctx, targetPath t'] = resolve (cwd E) [ctx, targetPath t] \<Longrightarrow>
   resolveOutput E config ctx t' = resolveOutput E config ctx t"
  by (cases "targetFormat t") (simp_all add: resolveOutput_def Let_def)

lemma composeProjectConfig_common:
  "composeProjectConfig E co config st = Inr (r, st') \<Longrightarrow> common r = co"
  by (auto simp: composeProjectConfig_def Let_def split: sum.splits prod.splits)

lemma composeSingleInputConfig_common:
  "composeSingleInputConfig E co config input st = Inr (r, st') \<Longrightarrow> common r = co"
  by (auto simp: composeSingleInputConfig_def Let_def split: sum.splits prod.splits)

lemma composeConfig_common:
  "composeConfig E co config options st = Inr (r, st') \<Longrightarrow> common r = co"
  using composeProjectConfig_common composeSingleInputConfig_common
  by (fastforce simp: composeConfig_def split: option.splits if_splits)

lemma resolveTaskConfig_common:
  assumes "resolveTaskConfig E config options = Inr (r, st)"
  shows "\<exists>sz roots. common r = commonOpts E config options sz roots"
  using assms composeConfig_common unfolding resolveTaskConfig_def
  by (fastforce split: sum.splits prod.splits)

lemma resolveTaskConfig_outputs:
  assumes "resolveTaskConfig E config options = Inr (r, st)"
  shows "outputs (common r) = resolveOutputs E config (contextOf E options)"
  using resolveTaskConfig_common[OF assms] by (auto simp: commonOpts_def)

text \<open>
  Claim C3, as the code has it. A configuration without an \<open>output\<close> property
  resolves to exactly one PDF output, whose path is \<open><title>.pdf\<close> resolved against
  the context directory when the configuration has a non-empty title and
  \<open>output.pdf\<close> otherwise. A configuration with an \<open>output\<close> list resolves to one
  output for each declared one, each path resolved against the context directory. So
  the resolved list is empty exactly when the declared list is empty.
\<close>

theorem resolved_outputs:
  assumes "resolveTaskConfig E config options = Inr (r, st)"
  shows "(configOutput config = None \<longrightarrow>
            outputs (common r)
            = [PdfOutput
                 (resolve (cwd E)
                    [contextOf E options,
                     (case configTitle config of
                        None \<Rightarrow> ''output.pdf''
                      | Some t \<Rightarrow> if t = [] then ''output.pdf'' else t @ ''.pdf'')])
                 Local (defaultPreflight config) []])
         \<and> (\<forall>targets. configOutput config = Some targets \<longrightarrow>
                length (outputs (common r)) = length targets
                \<and> map outputPath (outputs (common r))
                  = map (\<lambda>t. resolve (cwd E) [contextOf E options, targetPath t]) targets)
         \<and> (outputs (common r) = [] \<longleftrightarrow> configOutput config = Some [])"
proof -
  note o = resolveTaskConfig_outputs[OF assms]
  have none: "configOutput config = None \<longrightarrow>
            outputs (common r)
            = [PdfOutput
                 (resolve (cwd E)
                    [contextOf E options,
                     (case configTitle config of
                        None \<Rightarrow> ''output.pdf''
                      | Some t \<Rightarrow> if t = [] then ''output.pdf'' else t @ ''.pdf'')])
                 Local (defaultPreflight config) []]"
    using o by (cases "configTitle config") (simp_all add: resolveOutputs_def Let_def)
  have some: "\<forall>targets. configOutput config = Some targets \<longrightarrow>
                length (outputs (common r)) = length targets
                \<and> map outputPath (outputs (common r))
                  = map (\<lambda>t. resolve (cwd E) [contextOf E options, targetPath t]) targets"
    using o by (simp add: resolveOutputs_def outputPath_resolveOutput)
  have empty: "outputs (common r) = [] \<longleftrightarrow> configOutput config = Some []"
  proof (cases "configOutput config")
    case None
    with none show ?thesis by simp
  next
    case (Some targets)
    with o show ?thesis by (simp add: resolveOutputs_def)
  qed
  from none some empty show ?thesis by blast
qed

lemma example_titled_project:
  "\<exists>r st. resolveTaskConfig exampleEnv (emptyConfig\<lparr>configTitle := Some ''Book''\<rparr>) noOptions
           = Inr (r, st)"
  by (simp add: path_defs example_defs entry_defs compose_defs Let_def)

theorem resolved_outputs_witness:
  "configOutput (emptyConfig\<lparr>configTitle := Some ''Book''\<rparr>) = None
   \<and> map_sum id (outputs \<circ> common \<circ> fst)
       (resolveTaskConfig exampleEnv (emptyConfig\<lparr>configTitle := Some ''Book''\<rparr>) noOptions)
     = Inr [PdfOutput ''/proj/Book.pdf'' Local PreflightNull []]"
proof -
  from example_titled_project obtain r st where
    r: "resolveTaskConfig exampleEnv (emptyConfig\<lparr>configTitle := Some ''Book''\<rparr>) noOptions
        = Inr (r, st)"
    by blast
  have "outputs (common r) = [PdfOutput ''/proj/Book.pdf'' Local PreflightNull []]"
    using resolved_outputs[OF r]
    by (simp add: path_defs example_defs contextOf_def defaultPreflight_def)
  with r show ?thesis by (simp add: emptyConfig_def)
qed

text \<open>
  Claim C3 as stated fails: a configuration that declares the empty output list and a
  title resolves, and its resolved output list is empty.
\<close>

theorem empty_output_list_counterexample:
  "map_sum id (outputs \<circ> common \<circ> fst)
     (resolveTaskConfig exampleEnv
        (emptyConfig\<lparr>configTitle := Some ''title'', configOutput := Some []\<rparr>) noOptions)
   = Inr []"
  by (simp add: path_defs example_defs entry_defs compose_defs Let_def)

text \<open>
  Claim C9, as the code has it. With an absolute working directory, the path of a
  resolved output is a resolved path (absolute and normalised), a declared path that
  is already a resolved path is left unchanged, and normalising an output again with
  the path it was given by the first run yields the same output.
\<close>

theorem output_paths_idempotent:
  assumes "properCwd (cwd E)"
  shows "isResolved (outputPath (resolveOutput E config ctx target))
         \<and> (isResolved (targetPath target) \<longrightarrow>
              outputPath (resolveOutput E config ctx target) = targetPath target)
         \<and> resolveOutput E config ctx
              (target\<lparr>targetPath := outputPath (resolveOutput E config ctx target)\<rparr>)
            = resolveOutput E config ctx target"
proof -
  let ?r = "resolve (cwd E) [ctx, targetPath target]"
  have r: "isResolved ?r" by (rule resolve_isResolved[OF assms])
  have again: "resolve (cwd E) [ctx, ?r] = ?r"
    using resolve_resolved[OF r, of "cwd E" "[ctx]"] by simp
  have same: "isResolved (targetPath target) \<longrightarrow> ?r = targetPath target"
    using resolve_resolved[of "targetPath target" "cwd E" "[ctx]"] by simp
  have "resolveOutput E config ctx (target\<lparr>targetPath := ?r\<rparr>) = resolveOutput E config ctx target"
    by (rule resolveOutput_path_only) (simp_all add: again)
  with r same show ?thesis by (simp add: outputPath_resolveOutput)
qed

theorem output_paths_idempotent_witness:
  "properCwd (cwd exampleEnv)
   \<and> outputPath (resolveOutput exampleEnv emptyConfig ''/proj'' (outputTarget Pdf ''out/book.pdf''))
     = ''/proj/out/book.pdf''
   \<and> isResolved ''/proj/out/book.pdf''
   \<and> resolveOutput exampleEnv emptyConfig ''/proj'' (outputTarget Pdf ''/proj/out/book.pdf'')
     = resolveOutput exampleEnv emptyConfig ''/proj'' (outputTarget Pdf ''out/book.pdf'')"
proof -
  have c: "properCwd (cwd exampleEnv)"
    by (simp add: properCwd_def exampleEnv_def slash_def backslash_def)
  have p: "outputPath (resolveOutput exampleEnv emptyConfig ''/proj'' (outputTarget Pdf ''out/book.pdf''))
           = ''/proj/out/book.pdf''"
    by (simp add: outputPath_resolveOutput outputTarget_def path_defs example_defs)
  from output_paths_idempotent[OF c, of emptyConfig "''/proj''" "outputTarget Pdf ''out/book.pdf''"]
  show ?thesis using c p by (simp add: outputTarget_def)
qed

text \<open>
  Claim C9 as stated fails: an absolute path that is not normalised is changed.
\<close>

theorem absolute_output_path_counterexample:
  "hd ''/out/../book.pdf'' = slash
   \<and> outputPath (resolveOutput exampleEnv emptyConfig ''/proj'' (outputTarget Pdf ''/out/../book.pdf''))
     = ''/book.pdf''
   \<and> ''/book.pdf'' \<noteq> ''/out/../book.pdf''"
  by (simp add: outputPath_resolveOutput outputTarget_def path_defs example_defs)

section \<open>The Theme Resolver and the theme index\<close>

lemma parseTheme_state:
  assumes "parseTheme E r c w t st = Inr (th, st')"
  shows "st' = st\<lparr>nextObject := Suc (nextObject st)\<rparr> \<and> ident th = nextObject st"
  using assms
  by (auto simp: parseTheme_def allocate_def Let_def
      split: ThemeRef.splits option.splits if_splits prod.splits)

lemma parseTheme_touched:
  assumes "touched st2 = touched st"
  shows "parseTheme E r c w t st2
         = map_sum id (\<lambda>x. (reidentify (nextObject st2) (fst x),
                             st2\<lparr>nextObject := Suc (nextObject st2)\<rparr>))
             (parseTheme E r c w t st)"
  using assms
  by (simp add: parseTheme_def allocate_def Let_def existsSync_def
      split: ThemeRef.split option.split prod.split)

lemma parseTheme_reidentify:
  assumes "parseTheme E r c w t st = Inr (th, st')" and "touched st2 = touched st"
  shows "parseTheme E r c w t st2
         = Inr (reidentify (nextObject st2) th, st2\<lparr>nextObject := Suc (nextObject st2)\<rparr>)"
  using parseTheme_touched[OF assms(2), of E r c w t] assms(1) by simp

lemma parseThemes_state:
  assumes "parseThemes E rs c w t st = Inr (ts, st')"
  shows "st' = st\<lparr>nextObject := nextObject st + length rs\<rparr> \<and> length ts = length rs"
  using assms
proof (induction rs arbitrary: st ts)
  case Nil
  then show ?case by simp
next
  case (Cons r rs)
  from Cons.prems obtain th st1 ts' where
    h: "parseTheme E r c w t st = Inr (th, st1)"
    and tl: "parseThemes E rs c w t st1 = Inr (ts', st')" and ts: "ts = th # ts'"
    by (auto split: sum.splits prod.splits)
  note a = parseTheme_state[OF h]
  note b = Cons.IH[OF tl]
  from a b ts show ?case by simp
qed

lemma parseThemes_nth:
  assumes "parseThemes E rs c w t st = Inr (ts, st')" and "i < length rs"
  shows "parseTheme E (rs ! i) c w t (st\<lparr>nextObject := nextObject st + i\<rparr>)
         = Inr (ts ! i, st\<lparr>nextObject := Suc (nextObject st + i)\<rparr>)"
  using assms
proof (induction rs arbitrary: st ts i)
  case Nil
  then show ?case by simp
next
  case (Cons r rs)
  from Cons.prems(1) obtain th st1 ts' where
    h: "parseTheme E r c w t st = Inr (th, st1)"
    and tl: "parseThemes E rs c w t st1 = Inr (ts', st')" and ts: "ts = th # ts'"
    by (auto split: sum.splits prod.splits)
  note a = parseTheme_state[OF h]
  show ?case
  proof (cases i)
    case 0
    with h a ts show ?thesis by simp
  next
    case (Suc k)
    with Cons.prems(2) have "k < length rs" by simp
    from Cons.IH[OF tl this] a ts Suc show ?thesis by simp
  qed
qed

lemma foldl_setAdd_fresh:
  "distinct (map ident ts) \<Longrightarrow> set (map ident ts) \<inter> set (map ident s) = {} \<Longrightarrow>
   foldl (\<lambda>s t. setAdd t s) s ts = s @ ts"
proof (induction ts arbitrary: s)
  case Nil
  then show ?case by simp
next
  case (Cons a ts)
  then have "setAdd a s = s @ [a]" by (auto simp: setAdd_def)
  moreover have "foldl (\<lambda>s t. setAdd t s) (s @ [a]) ts = (s @ [a]) @ ts"
    using Cons.prems by (intro Cons.IH) auto
  ultimately show ?case by simp
qed

lemma foldl_setAdd_present:
  "set (map ident ts) \<subseteq> set (map ident s) \<Longrightarrow> foldl (\<lambda>s t. setAdd t s) s ts = s"
  by (induction ts arbitrary: s) (auto simp: setAdd_def)

lemma parseThemes_ident:
  assumes "parseThemes E rs c w t st = Inr (ts, st')" and "i < length rs"
  shows "ident (ts ! i) = nextObject st + i"
  using parseTheme_state[OF parseThemes_nth[OF assms]] by simp

text \<open>
  Claim C2, as the code has it. When the root theme references of a configuration
  resolve, there is one record for each reference, the identities of the records are
  pairwise distinct, and the theme index built from them holds every one of them, in
  order: one entry for each reference resolved, also when two references are equal
  or name the same location. The records of two equal references in the list have
  the same content (type, name, source or specifier, location) and differ in their
  identity only. Adding the records that the index already holds leaves it unchanged:
  the index deduplicates by the identity of the record, not by its location.
\<close>

theorem theme_index_by_identity:
  assumes "parseThemes E refs ctx ws td initialState = Inr (roots, st)"
  shows "length roots = length refs
         \<and> distinct (map ident roots)
         \<and> themeIndexes (addThemes roots st) = roots
         \<and> addThemes roots (addThemes roots st) = addThemes roots st
         \<and> (\<forall>i < length refs. \<forall>j < length refs.
               refs ! i = refs ! j \<longrightarrow> sameContent (roots ! i) (roots ! j))"
proof -
  note s = parseThemes_state[OF assms]
  then have len: "length roots = length refs" by simp
  have dist: "distinct (map ident roots)"
    unfolding distinct_conv_nth
  proof (intro allI impI)
    fix i j assume "i < length (map ident roots)" "j < length (map ident roots)" "i \<noteq> j"
    with len parseThemes_ident[OF assms, of i] parseThemes_ident[OF assms, of j]
    show "map ident roots ! i \<noteq> map ident roots ! j" by simp
  qed
  from s have idx: "themeIndexes st = []" by (simp add: initialState_def)
  have add: "themeIndexes (addThemes roots st) = roots"
    using foldl_setAdd_fresh[OF dist, of "[]"] idx by (simp add: addThemes_def)
  have again: "addThemes roots (addThemes roots st) = addThemes roots st"
    using foldl_setAdd_present[of roots roots] add by (simp add: addThemes_def)
  have same: "\<forall>i < length refs. \<forall>j < length refs.
               refs ! i = refs ! j \<longrightarrow> sameContent (roots ! i) (roots ! j)"
  proof (intro allI impI)
    fix i j assume i: "i < length refs" and j: "j < length refs" and e: "refs ! i = refs ! j"
    let ?si = "initialState\<lparr>nextObject := nextObject initialState + i\<rparr>"
    let ?sj = "initialState\<lparr>nextObject := nextObject initialState + j\<rparr>"
    note pi = parseThemes_nth[OF assms i]
    note pj = parseThemes_nth[OF assms j]
    have "touched ?sj = touched ?si" by simp
    from parseTheme_reidentify[OF pi this] pj e
    have "roots ! j = reidentify (nextObject ?sj) (roots ! i)" by simp
    then show "sameContent (roots ! i) (roots ! j)"
      by (cases "roots ! i") (simp_all add: sameContent_def)
  qed
  from len dist add again same show ?thesis by blast
qed

lemma example_repeated_theme:
  "parseThemes exampleEnv [ThemeString ''./theme.css'', ThemeString ''./theme.css'']
     ''/proj'' ''/proj/.vivliostyle'' ''/proj/.vivliostyle/themes'' initialState
   = Inr ([FileTheme 0 ''theme.css'' ''/proj/theme.css'' ''/proj/.vivliostyle/theme.css'',
           FileTheme 1 ''theme.css'' ''/proj/theme.css'' ''/proj/.vivliostyle/theme.css''],
          initialState\<lparr>nextObject := 2\<rparr>)"
  by (simp add: path_defs example_defs entry_defs)

theorem theme_index_by_identity_witness:
  "parseThemes exampleEnv [ThemeString ''./theme.css'', ThemeString ''./theme.css'']
     ''/proj'' ''/proj/.vivliostyle'' ''/proj/.vivliostyle/themes'' initialState
   = Inr ([FileTheme 0 ''theme.css'' ''/proj/theme.css'' ''/proj/.vivliostyle/theme.css'',
           FileTheme 1 ''theme.css'' ''/proj/theme.css'' ''/proj/.vivliostyle/theme.css''],
          initialState\<lparr>nextObject := 2\<rparr>)
   \<and> themeIndexes
       (addThemes
          [FileTheme 0 ''theme.css'' ''/proj/theme.css'' ''/proj/.vivliostyle/theme.css'',
           FileTheme 1 ''theme.css'' ''/proj/theme.css'' ''/proj/.vivliostyle/theme.css'']
          (initialState\<lparr>nextObject := 2\<rparr>))
     = [FileTheme 0 ''theme.css'' ''/proj/theme.css'' ''/proj/.vivliostyle/theme.css'',
        FileTheme 1 ''theme.css'' ''/proj/theme.css'' ''/proj/.vivliostyle/theme.css'']
   \<and> sameContent
       (FileTheme 0 ''theme.css'' ''/proj/theme.css'' ''/proj/.vivliostyle/theme.css'')
       (FileTheme 1 ''theme.css'' ''/proj/theme.css'' ''/proj/.vivliostyle/theme.css'')"
  using theme_index_by_identity[OF example_repeated_theme] example_repeated_theme
  by (simp add: sameContent_def)

text \<open>
  Claim C2 as stated fails: a configuration whose theme list names \<open>./theme.css\<close>
  twice resolves to a theme index with two entries for the same location.
\<close>

theorem repeated_theme_counterexample:
  "map_sum id (resolvedThemeIndexes \<circ> fst)
     (resolveTaskConfig exampleEnv
        (emptyConfig\<lparr>configTheme :=
           Some [ThemeString ''./theme.css'', ThemeString ''./theme.css'']\<rparr>)
        noOptions)
   = Inr [FileTheme 0 ''theme.css'' ''/proj/theme.css'' ''/proj/.vivliostyle/theme.css'',
          FileTheme 1 ''theme.css'' ''/proj/theme.css'' ''/proj/.vivliostyle/theme.css'']"
  by (simp add: path_defs example_defs entry_defs compose_defs Let_def)

section \<open>The steps and the state of \<open>parseEntry\<close>\<close>

lemma parseThemes_only_allocates:
  "parseThemes E rs c w t st = Inr (ts, st') \<Longrightarrow> \<exists>n. st' = st\<lparr>nextObject := n\<rparr>"
  using parseThemes_state by blast

lemma parseFileMetadata_only_allocates:
  assumes "parseFileMetadata E ct p ws td st = Inr (md, st')"
  shows "\<exists>n. st' = st\<lparr>nextObject := n\<rparr>"
proof (cases "st' = st")
  case True
  have "st = st\<lparr>nextObject := nextObject st\<rparr>" by simp
  with True show ?thesis by metis
next
  case False
  with assms obtain rs c w t ts where "parseThemes E rs c w t st = Inr (ts, st')"
    by (auto simp: parseFileMetadata_def Let_def split: if_splits option.splits sum.splits)
  then show ?thesis by (rule parseThemes_only_allocates)
qed

lemma parseFileMetadata_no_theme:
  assumes "parseFileMetadata E ct p ws td st = Inr (md, st')"
    and "ct = ''text/markdown'' \<longrightarrow> \<not> metadataThemeTruthy (metaTheme (readMarkdownMetadata E p))"
  shows "fileThemes md = None"
  using assms
  by (auto simp: parseFileMetadata_def Let_def split: if_splits option.splits sum.splits)

lemma getInputInfo_only_allocates:
  assumes "getInputInfo E P entry p st = Inr (info, st')"
  shows "\<exists>n. st' = st\<lparr>nextObject := n\<rparr>"
proof (cases "st' = st")
  case True
  have "st = st\<lparr>nextObject := nextObject st\<rparr>" by simp
  with True show ?thesis by metis
next
  case False
  with assms obtain ct q ws td md where "parseFileMetadata E ct q ws td st = Inr (md, st')"
    by (auto simp: getInputInfo_def Let_def split: if_splits option.splits sum.splits)
  then show ?thesis by (rule parseFileMetadata_only_allocates)
qed

lemma getInputInfo_no_theme:
  assumes "getInputInfo E P entry p st = Inr (info, st')"
    and "\<not> isHttpLike p \<and> \<not> startsWith p ''/''
         \<and> mime E (resolve (cwd E) [entryContextDir (scopeCommon P), p]) = Some ''text/markdown''
         \<longrightarrow> \<not> metadataThemeTruthy
               (metaTheme (readMarkdownMetadata E
                  (resolve (cwd E) [entryContextDir (scopeCommon P), p])))"
  shows "metadataThemes (metadataOf (Some info)) = None"
proof (cases info)
  case (UriInput h r)
  then show ?thesis by (simp add: metadataThemes_def)
next
  case (FileInput q ct md)
  with assms(1) have "\<exists>st0. parseFileMetadata E ct q (workspaceDir (scopeCommon P))
                        (Some (themesDir (scopeCommon P))) st0 = Inr (md, st')
                      \<and> q = resolve (cwd E) [entryContextDir (scopeCommon P), p]
                      \<and> mime E q = Some ct \<and> \<not> isHttpLike p \<and> \<not> startsWith p ''/''"
    by (auto simp: getInputInfo_def Let_def split: if_splits option.splits sum.splits)
  with assms(2) parseFileMetadata_no_theme have "fileThemes md = None" by blast
  with FileInput show ?thesis by (simp add: metadataThemes_def)
qed

lemma optionalInputInfo_cases:
  assumes "optionalInputInfo E P entry st = Inr (info, st')"
  shows "(info = None \<and> st' = st)
         \<or> (\<exists>p i. entryPath entry = Some p \<and> info = Some i
                  \<and> getInputInfo E P entry p st = Inr (i, st'))"
  using assms
  by (auto simp: optionalInputInfo_def split: option.splits if_splits sum.splits)

lemma optionalInputInfo_no_theme:
  assumes "optionalInputInfo E P entry st = Inr (info, st')"
    and "\<forall>p. entryPath entry = Some p \<and> \<not> isHttpLike p \<and> \<not> startsWith p ''/''
             \<and> mime E (resolve (cwd E) [entryContextDir (scopeCommon P), p])
                 = Some ''text/markdown''
           \<longrightarrow> \<not> metadataThemeTruthy
                 (metaTheme (readMarkdownMetadata E
                    (resolve (cwd E) [entryContextDir (scopeCommon P), p])))"
  shows "metadataThemes (metadataOf info) = None"
proof -
  from optionalInputInfo_cases[OF assms(1)] show ?thesis
  proof
    assume "info = None \<and> st' = st"
    then show ?thesis by (simp add: metadataThemes_def)
  next
    assume "\<exists>p i. entryPath entry = Some p \<and> info = Some i
                  \<and> getInputInfo E P entry p st = Inr (i, st')"
    then obtain p i where p: "entryPath entry = Some p" and i: "info = Some i"
      and g: "getInputInfo E P entry p st = Inr (i, st')" by blast
    from assms(2) p have "\<not> isHttpLike p \<and> \<not> startsWith p ''/''
         \<and> mime E (resolve (cwd E) [entryContextDir (scopeCommon P), p]) = Some ''text/markdown''
         \<longrightarrow> \<not> metadataThemeTruthy
               (metaTheme (readMarkdownMetadata E
                  (resolve (cwd E) [entryContextDir (scopeCommon P), p])))" by blast
    from getInputInfo_no_theme[OF g this] i show ?thesis by simp
  qed
qed

lemma resolveEntryThemes_fallback:
  "\<not> themeFieldTruthy (entryTheme entry) \<Longrightarrow> metadataThemes md = None \<Longrightarrow>
   resolveEntryThemes E P entry md fallback st = Inr (fallback, st)"
  by (simp add: resolveEntryThemes_def)

lemma resolveEntryThemes_only_allocates:
  assumes "resolveEntryThemes E P entry md fallback st = Inr (ts, st')"
  shows "\<exists>n. st' = st\<lparr>nextObject := n\<rparr>"
proof (cases "st' = st")
  case True
  have "st = st\<lparr>nextObject := nextObject st\<rparr>" by simp
  with True show ?thesis by metis
next
  case False
  with assms obtain rs c w t where "parseThemes E rs c w t st = Inr (ts, st')"
    by (auto simp: resolveEntryThemes_def split: if_splits option.splits)
  then show ?thesis by (rule parseThemes_only_allocates)
qed

lemma parseContentsEntry_steps:
  assumes "parseContentsEntry E P entry st = Inr (e, st')"
  shows "\<exists>info st1 st2 c. optionalInputInfo E P entry st = Inr (info, st1)
           \<and> resolveEntryThemes E P entry (metadataOf info) (rootThemes (scopeCommon P)) st1
               = Inr (contentsThemes c, st2)
           \<and> e = Contents c"
  using assms
  by (auto simp: parseContentsEntry_def split: sum.splits prod.splits)

lemma parseCoverEntry_steps:
  assumes "parseCoverEntry E P entry st = Inr (e, st')"
  shows "\<exists>info st1 st2 c. optionalInputInfo E P entry st = Inr (info, st1)
           \<and> resolveEntryThemes E P entry (metadataOf info) [] st1 = Inr (coverThemes c, st2)
           \<and> e = Cover c"
  using assms
  by (auto simp: parseCoverEntry_def split: sum.splits prod.splits option.splits)

lemma parseArticleEntry_steps:
  assumes "parseArticleEntry E P entry st = Inr (e, st')"
  shows "\<exists>p info st1 st2 m. entryPath entry = Some p
           \<and> getInputInfo E P entry p st = Inr (info, st1)
           \<and> resolveEntryThemes E P entry (metadataOf (Some info)) (rootThemes (scopeCommon P)) st1
               = Inr (manuscriptThemes m, st2)
           \<and> st' = addThemes (manuscriptThemes m) st2
           \<and> e = Manuscript m"
  using assms
  by (auto simp: parseArticleEntry_def split: option.splits sum.splits prod.splits)

lemma reinterpret_fields:
  assumes "reinterpretMissingPath E P entry st = (entry', st0)"
  shows "entryTheme entry' = entryTheme entry
         \<and> (entryPath entry' = entryPath entry \<or> entryPath entry' = None)
         \<and> imageSrc entry' = imageSrc entry"
  using assms
  by (auto simp: reinterpretMissingPath_def Let_def split: if_splits option.splits)

lemma addThemes_fields:
  "exportAliases (addThemes ts st) = exportAliases st \<and> touched (addThemes ts st) = touched st"
  by (simp add: addThemes_def)

section \<open>The themes of an entry\<close>

text \<open>
  Claim C4. Let an entry have no theme override (its \<open>theme\<close> is absent or falsy),
  and let the file its path names, when that path names a local markdown file, declare
  no theme in its front matter. When the entry resolves, the result is of the kind the
  entry declares and has the default themes of that kind: a contents entry resolves to
  a contents entry whose themes are the root themes, a cover entry to a cover entry
  without themes, and any other entry to a manuscript whose themes are the root
  themes.
\<close>

theorem default_entry_themes:
  assumes "parseEntry E P entry st = Inr (e, st')"
    and "\<not> themeFieldTruthy (entryTheme entry)"
    and "\<forall>p. entryPath entry = Some p \<and> \<not> isHttpLike p \<and> \<not> startsWith p ''/''
             \<and> mime E (resolve (cwd E) [entryContextDir (scopeCommon P), p])
                 = Some ''text/markdown''
           \<longrightarrow> \<not> metadataThemeTruthy
                 (metaTheme (readMarkdownMetadata E
                    (resolve (cwd E) [entryContextDir (scopeCommon P), p])))"
  shows "(isContentsEntry entry \<longrightarrow>
            (\<exists>c. e = Contents c \<and> contentsThemes c = rootThemes (scopeCommon P)))
         \<and> (isCoverEntry entry \<longrightarrow> (\<exists>c. e = Cover c \<and> coverThemes c = []))
         \<and> (isArticleEntry entry \<longrightarrow>
            (\<exists>m. e = Manuscript m \<and> manuscriptThemes m = rootThemes (scopeCommon P)))"
proof -
  obtain entry' st0 where r: "reinterpretMissingPath E P entry st = (entry', st0)"
    by (cases "reinterpretMissingPath E P entry st")
  note f = reinterpret_fields[OF r]
  note k = reinterpret_kind[OF r]
  from f assms(2) have nt: "\<not> themeFieldTruthy (entryTheme entry')" by simp
  from f assms(3) have nm: "\<forall>p. entryPath entry' = Some p \<and> \<not> isHttpLike p
             \<and> \<not> startsWith p ''/''
             \<and> mime E (resolve (cwd E) [entryContextDir (scopeCommon P), p])
                 = Some ''text/markdown''
           \<longrightarrow> \<not> metadataThemeTruthy
               (metaTheme (readMarkdownMetadata E
                  (resolve (cwd E) [entryContextDir (scopeCommon P), p])))"
    by auto
  show ?thesis
  proof (cases "isContentsEntry entry")
    case True
    with assms(1) r k have "parseContentsEntry E P entry' st0 = Inr (e, st')"
      by (simp add: parseEntry_def)
    from parseContentsEntry_steps[OF this] obtain info st1 st2 c where
      i: "optionalInputInfo E P entry' st0 = Inr (info, st1)"
      and t: "resolveEntryThemes E P entry' (metadataOf info) (rootThemes (scopeCommon P)) st1
               = Inr (contentsThemes c, st2)"
      and e: "e = Contents c" by blast
    from resolveEntryThemes_fallback[OF nt optionalInputInfo_no_theme[OF i nm]] t e True
    show ?thesis by (simp add: isCoverEntry_def isContentsEntry_def isArticleEntry_def)
  next
    case nc: False
    show ?thesis
    proof (cases "isCoverEntry entry")
      case True
      with assms(1) r nc k have "parseCoverEntry E P entry' st0 = Inr (e, st')"
        by (simp add: parseEntry_def)
      from parseCoverEntry_steps[OF this] obtain info st1 st2 c where
        i: "optionalInputInfo E P entry' st0 = Inr (info, st1)"
        and t: "resolveEntryThemes E P entry' (metadataOf info) [] st1
                 = Inr (coverThemes c, st2)"
        and e: "e = Cover c" by blast
      from resolveEntryThemes_fallback[OF nt optionalInputInfo_no_theme[OF i nm]] t e True nc
      show ?thesis by (simp add: isArticleEntry_def)
    next
      case False
      with assms(1) r nc k have "parseArticleEntry E P entry' st0 = Inr (e, st')"
        by (simp add: parseEntry_def)
      from parseArticleEntry_steps[OF this] obtain p info st1 st2 m where
        p: "entryPath entry' = Some p"
        and i: "getInputInfo E P entry' p st0 = Inr (info, st1)"
        and t: "resolveEntryThemes E P entry' (metadataOf (Some info))
                  (rootThemes (scopeCommon P)) st1 = Inr (manuscriptThemes m, st2)"
        and e: "e = Manuscript m" by blast
      from nm p have "\<not> isHttpLike p \<and> \<not> startsWith p ''/''
         \<and> mime E (resolve (cwd E) [entryContextDir (scopeCommon P), p]) = Some ''text/markdown''
         \<longrightarrow> \<not> metadataThemeTruthy
               (metaTheme (readMarkdownMetadata E
                  (resolve (cwd E) [entryContextDir (scopeCommon P), p])))" by simp
      from resolveEntryThemes_fallback[OF nt getInputInfo_no_theme[OF i this]] t e False nc
      show ?thesis by (simp add: isArticleEntry_def)
    qed
  qed
qed

lemma example_themed_manuscript:
  "parseEntry exampleEnv themedScope (entryWithPath ''sample.md'') themedState
   = Inr (Manuscript
            \<lparr>contentType = ''text/markdown'', manuscriptTitle = None,
             manuscriptThemes = [exampleTheme],
             manuscriptSource = FileEntrySource ''/proj/sample.md'' ''text/markdown'',
             manuscriptTarget = ''/proj/sample.html'', manuscriptRel = None\<rparr>,
          themedState)"
  by (simp add: path_defs example_defs entry_defs)

lemma example_themed_contents:
  "parseEntry exampleEnv themedScope (contentsWithPath ''toc.html'') themedState
   = Inr (Contents
            \<lparr>contentsTitle = None, contentsThemes = [exampleTheme],
             contentsTemplate = Some (FileEntrySource ''/proj/toc.html'' ''text/html''),
             contentsTarget = ''/proj/.vs-1.toc.html'', tocTitle = ''Table of Contents'',
             sectionDepth = 0, transformDocumentList = None, transformSectionList = None,
             contentsPageBreakBefore = None, pageCounterReset = None\<rparr>,
          themedState
            \<lparr>exportAliases :=
               [\<lparr>aliasSource = ''/proj/.vs-1.toc.html'', aliasTarget = ''/proj/toc.html''\<rparr>],
             touched := [''/proj/.vs-1.toc.html'']\<rparr>)"
  by (simp add: path_defs example_defs entry_defs)

lemma example_themed_cover:
  "parseEntry exampleEnv themedScope
     ((coverWithPath ''cover.html'')\<lparr>imageSrc := Some ''image.png''\<rparr>) themedState
   = Inr (Cover
            \<lparr>coverTitle = None, coverThemes = [],
             coverTemplate = Some (FileEntrySource ''/proj/cover.html'' ''text/html''),
             coverTarget = ''/proj/.vs-1.cover.html'', coverImageSrc = ''/proj/image.png'',
             coverImageAlt = ''Cover image'', coverPageBreakBefore = None\<rparr>,
          themedState
            \<lparr>exportAliases :=
               [\<lparr>aliasSource = ''/proj/.vs-1.cover.html'',
                  aliasTarget = ''/proj/cover.html''\<rparr>],
             touched := [''/proj/.vs-1.cover.html'']\<rparr>)"
  by (simp add: path_defs example_defs entry_defs)

theorem default_entry_themes_witness:
  "rootThemes (scopeCommon themedScope) = [exampleTheme]
   \<and> isArticleEntry (entryWithPath ''sample.md'')
   \<and> \<not> themeFieldTruthy (entryTheme (entryWithPath ''sample.md''))
   \<and> \<not> metadataThemeTruthy (metaTheme (readMarkdownMetadata exampleEnv ''/proj/sample.md''))
   \<and> map_sum id (entryThemes \<circ> fst)
         (parseEntry exampleEnv themedScope (entryWithPath ''sample.md'') themedState)
       = Inr [exampleTheme]
   \<and> isContentsEntry (contentsWithPath ''toc.html'')
   \<and> \<not> themeFieldTruthy (entryTheme (contentsWithPath ''toc.html''))
   \<and> map_sum id (entryThemes \<circ> fst)
         (parseEntry exampleEnv themedScope (contentsWithPath ''toc.html'') themedState)
       = Inr [exampleTheme]
   \<and> isCoverEntry ((coverWithPath ''cover.html'')\<lparr>imageSrc := Some ''image.png''\<rparr>)
   \<and> \<not> themeFieldTruthy
         (entryTheme ((coverWithPath ''cover.html'')\<lparr>imageSrc := Some ''image.png''\<rparr>))
   \<and> map_sum id (entryThemes \<circ> fst)
         (parseEntry exampleEnv themedScope
            ((coverWithPath ''cover.html'')\<lparr>imageSrc := Some ''image.png''\<rparr>) themedState)
       = Inr []"
proof -
  let ?m = "entryWithPath ''sample.md''"
  let ?c = "contentsWithPath ''toc.html''"
  let ?v = "(coverWithPath ''cover.html'')\<lparr>imageSrc := Some ''image.png''\<rparr>"
  have k: "isArticleEntry ?m" "isContentsEntry ?c" "isCoverEntry ?v"
    by (simp_all add: example_defs entry_defs)
  have t: "\<not> themeFieldTruthy (entryTheme ?m)" "\<not> themeFieldTruthy (entryTheme ?c)"
    "\<not> themeFieldTruthy (entryTheme ?v)"
    by (simp_all add: example_defs)
  have m: "\<forall>p. entryPath x = Some p \<and> \<not> isHttpLike p \<and> \<not> startsWith p ''/''
             \<and> mime exampleEnv
                  (resolve (cwd exampleEnv) [entryContextDir (scopeCommon themedScope), p])
                 = Some ''text/markdown''
           \<longrightarrow> \<not> metadataThemeTruthy
                 (metaTheme (readMarkdownMetadata exampleEnv
                    (resolve (cwd exampleEnv) [entryContextDir (scopeCommon themedScope), p])))"
    for x
    by (simp add: exampleEnv_def)
  have md: "\<not> metadataThemeTruthy (metaTheme (readMarkdownMetadata exampleEnv ''/proj/sample.md''))"
    by (simp add: exampleEnv_def)
  have r: "rootThemes (scopeCommon themedScope) = [exampleTheme]"
    by (simp add: themedScope_def)
  from default_entry_themes[OF example_themed_manuscript t(1) m] k(1) r
  have a: "map_sum id (entryThemes \<circ> fst)
             (parseEntry exampleEnv themedScope ?m themedState) = Inr [exampleTheme]"
    by (simp add: example_themed_manuscript)
  from default_entry_themes[OF example_themed_contents t(2) m] k(2) r
  have b: "map_sum id (entryThemes \<circ> fst)
             (parseEntry exampleEnv themedScope ?c themedState) = Inr [exampleTheme]"
    by (simp add: example_themed_contents)
  from default_entry_themes[OF example_themed_cover t(3) m] k(3)
  have c: "map_sum id (entryThemes \<circ> fst)
             (parseEntry exampleEnv themedScope ?v themedState) = Inr []"
    by (simp add: example_themed_cover)
  from r k t md a b c show ?thesis by simp
qed

section \<open>The collision of a target with its source\<close>

text \<open>
  A contents entry and a cover entry whose file would be written onto itself: the
  target becomes a temporary sibling, an alias leads back to the file, and the
  temporary file is touched.
\<close>

lemma example_colliding_contents:
  "parseEntry exampleEnv themedScope (contentsWithPath ''toc.html'') themedState
   = Inr (Contents
            \<lparr>contentsTitle = None, contentsThemes = [exampleTheme],
             contentsTemplate = Some (FileEntrySource ''/proj/toc.html'' ''text/html''),
             contentsTarget = ''/proj/.vs-1.toc.html'', tocTitle = ''Table of Contents'',
             sectionDepth = 0, transformDocumentList = None, transformSectionList = None,
             contentsPageBreakBefore = None, pageCounterReset = None\<rparr>,
          themedState
            \<lparr>exportAliases :=
               [\<lparr>aliasSource = ''/proj/.vs-1.toc.html'', aliasTarget = ''/proj/toc.html''\<rparr>],
             touched := [''/proj/.vs-1.toc.html'']\<rparr>)"
  by (simp add: path_defs example_defs entry_defs Let_def)

lemma example_colliding_cover:
  "parseEntry exampleEnv themedScope
     ((coverWithPath ''cover.html'')\<lparr>imageSrc := Some ''image.png''\<rparr>) themedState
   = Inr (Cover
            \<lparr>coverTitle = None, coverThemes = [],
             coverTemplate = Some (FileEntrySource ''/proj/cover.html'' ''text/html''),
             coverTarget = ''/proj/.vs-1.cover.html'', coverImageSrc = ''/proj/image.png'',
             coverImageAlt = ''Cover image'', coverPageBreakBefore = None\<rparr>,
          themedState
            \<lparr>exportAliases :=
               [\<lparr>aliasSource = ''/proj/.vs-1.cover.html'', aliasTarget = ''/proj/cover.html''\<rparr>],
             touched := [''/proj/.vs-1.cover.html'']\<rparr>)"
  by (simp add: path_defs example_defs entry_defs Let_def)

text \<open>
  Claim C1 does not hold for manuscript entries. The manuscript branch of
  \<open>parseEntry\<close> has no collision check: resolving a manuscript entry registers no
  alias and touches no file, whatever its target is.
\<close>

theorem manuscript_never_staged:
  assumes "parseEntry E P entry st = Inr (Manuscript m, st')"
  shows "exportAliases st' = exportAliases st \<and> touched st' = touched st"
proof -
  from parseEntry_manuscript[OF assms]
  have "parseArticleEntry E P entry st = Inr (Manuscript m, st')" by simp
  from parseArticleEntry_steps[OF this] obtain p info st1 st2 where
    i: "getInputInfo E P entry p st = Inr (info, st1)"
    and t: "resolveEntryThemes E P entry (metadataOf (Some info)) (rootThemes (scopeCommon P)) st1
             = Inr (manuscriptThemes m, st2)"
    and s: "st' = addThemes (manuscriptThemes m) st2" by auto
  from getInputInfo_only_allocates[OF i] obtain n1 where "st1 = st\<lparr>nextObject := n1\<rparr>" ..
  moreover from resolveEntryThemes_only_allocates[OF t] obtain n2 where
    "st2 = st1\<lparr>nextObject := n2\<rparr>" ..
  ultimately show ?thesis using s by (simp add: addThemes_fields)
qed

lemma example_colliding_manuscript:
  "parseEntry exampleEnv exampleScope (entryWithPath ''a.html'') initialState
   = Inr (Manuscript
            \<lparr>contentType = ''text/html'', manuscriptTitle = None, manuscriptThemes = [],
             manuscriptSource = FileEntrySource ''/proj/a.html'' ''text/html'',
             manuscriptTarget = ''/proj/a.html'', manuscriptRel = None\<rparr>,
          initialState)"
  by (simp add: path_defs example_defs entry_defs)

text \<open>
  In the project whose workspace directory is the project directory, the manuscript
  \<open>a.html\<close> resolves to a target that is its own source file, with no alias and no
  temporary file.
\<close>

theorem manuscript_never_staged_witness:
  "parseEntry exampleEnv exampleScope (entryWithPath ''a.html'') initialState
   = Inr (Manuscript
            \<lparr>contentType = ''text/html'', manuscriptTitle = None, manuscriptThemes = [],
             manuscriptSource = FileEntrySource ''/proj/a.html'' ''text/html'',
             manuscriptTarget = ''/proj/a.html'', manuscriptRel = None\<rparr>,
          initialState)
   \<and> pathEquals exampleEnv ''/proj/a.html'' ''/proj/a.html''
   \<and> exportAliases initialState = []
   \<and> touched initialState = []"
  using manuscript_never_staged[OF example_colliding_manuscript] example_colliding_manuscript
  by (simp add: pathEquals_def initialState_def)

section \<open>The error for a file that is not a manuscript\<close>

text \<open>
  Claim C6 does not hold for the message. A manuscript entry whose path names an
  existing local file with a media type that is not a manuscript type fails with
  \<open>Invalid manuscript type\<close>, the detected type (or \<open>false\<close>), and the entry object
  converted to a string, which is \<open>[object Object]\<close> and not the path.
\<close>

theorem invalid_manuscript_type_message:
  assumes "isArticleEntry entry" and "entryPath entry = Some p"
    and "\<not> isHttpLike p" and "\<not> startsWith p ''/''"
    and "existsSync E st (resolve (cwd E) [entryContextDir (scopeCommon P), p])"
    and "\<not> isManuscriptMediaType (mime E (resolve (cwd E) [entryContextDir (scopeCommon P), p]))"
  shows "parseEntry E P entry st
         = Inl (Error (''Invalid manuscript type ''
                       @ mimeToString (mime E (resolve (cwd E) [entryContextDir (scopeCommon P), p]))
                       @ '' detected: [object Object]''))"
  using assms
  by (simp add: parseEntry_article parseArticleEntry_def getInputInfo_def statFileSync_def
      entryToString_def Let_def)

lemma example_image_entry:
  "parseEntry exampleEnv exampleScope (entryWithPath ''image.png'') initialState
   = Inl (Error ''Invalid manuscript type image/png detected: [object Object]'')"
  by (simp add: path_defs example_defs entry_defs)

theorem invalid_manuscript_type_message_witness:
  "isArticleEntry (entryWithPath ''image.png'')
   \<and> existsSync exampleEnv initialState ''/proj/image.png''
   \<and> mime exampleEnv ''/proj/image.png'' = Some ''image/png''
   \<and> \<not> isManuscriptMediaType (Some ''image/png'')
   \<and> parseEntry exampleEnv exampleScope (entryWithPath ''image.png'') initialState
     = Inl (Error ''Invalid manuscript type image/png detected: [object Object]'')"
proof -
  have a: "isArticleEntry (entryWithPath ''image.png'')"
    by (simp add: example_defs entry_defs)
  have p: "entryPath (entryWithPath ''image.png'') = Some ''image.png''"
    by (simp add: entryWithPath_def)
  have h: "\<not> isHttpLike ''image.png''" and s: "\<not> startsWith ''image.png'' ''/''"
    by (simp_all add: path_defs)
  have r: "resolve (cwd exampleEnv) [entryContextDir (scopeCommon exampleScope), ''image.png'']
           = ''/proj/image.png''"
    by (simp add: path_defs example_defs entry_defs)
  have e: "existsSync exampleEnv initialState ''/proj/image.png''"
    by (simp add: example_defs entry_defs)
  have m: "mime exampleEnv ''/proj/image.png'' = Some ''image/png''"
    by (simp add: example_defs path_defs)
  have n: "\<not> isManuscriptMediaType (Some ''image/png'')"
    by (simp add: isManuscriptMediaType_def manuscriptMediaTypes_def)
  from invalid_manuscript_type_message[of "entryWithPath ''image.png''" "''image.png''"
      exampleEnv initialState exampleScope, OF a p h s] a r e m n
  show ?thesis by (simp add: mimeToString_def)
qed

section \<open>The cover image of a cover entry\<close>

lemma parseTheme_error:
  assumes "parseTheme E r c w t st = Inl e"
  shows "(\<exists>m. e = Error m) \<and> e \<noteq> Error missingCoverMessage"
  using assms
  by (auto simp: parseTheme_def allocate_def Let_def missingCoverMessage_def
      split: ThemeRef.splits option.splits if_splits prod.splits)

lemma parseThemes_error:
  assumes "parseThemes E rs c w t st = Inl e"
  shows "(\<exists>m. e = Error m) \<and> e \<noteq> Error missingCoverMessage"
  using assms
proof (induction rs arbitrary: st)
  case Nil
  then show ?case by simp
next
  case (Cons r rs)
  show ?case
  proof (cases "parseTheme E r c w t st")
    case (Inl x)
    with Cons.prems have "x = e" by simp
    with Inl parseTheme_error show ?thesis by blast
  next
    case (Inr y)
    obtain th st1 where y: "y = (th, st1)" by (cases y)
    with Inr Cons.prems have "parseThemes E rs c w t st1 = Inl e"
      by (auto split: sum.splits prod.splits)
    from Cons.IH[OF this] show ?thesis .
  qed
qed

lemma parseFileMetadata_error:
  assumes "parseFileMetadata E ct p ws td st = Inl e"
  shows "(\<exists>m. e = Error m) \<and> e \<noteq> Error missingCoverMessage"
proof -
  from assms obtain rs c w t where "parseThemes E rs c w t st = Inl e"
    by (auto simp: parseFileMetadata_def Let_def split: if_splits option.splits sum.splits)
  then show ?thesis by (rule parseThemes_error)
qed

lemma getInputInfo_error:
  assumes "getInputInfo E P entry p st = Inl e"
  shows "e \<noteq> Error missingCoverMessage"
proof (cases "\<exists>ct q ws td. parseFileMetadata E ct q ws td st = Inl e")
  case True
  with parseFileMetadata_error show ?thesis by blast
next
  case False
  with assms show ?thesis
    by (auto simp: getInputInfo_def Let_def statFileSync_def missingCoverMessage_def
        split: if_splits option.splits sum.splits)
qed

lemma optionalInputInfo_error:
  assumes "optionalInputInfo E P entry st = Inl e"
  shows "e \<noteq> Error missingCoverMessage"
proof -
  from assms obtain p where "getInputInfo E P entry p st = Inl e"
    by (auto simp: optionalInputInfo_def split: option.splits if_splits sum.splits)
  then show ?thesis by (rule getInputInfo_error)
qed

lemma optionalTarget_error:
  assumes "optionalTarget E P entry info = Inl e"
  shows "e \<noteq> Error missingCoverMessage"
  using assms
  by (auto simp: optionalTarget_def getTargetPath_def
      split: option.splits if_splits sum.splits EntrySource.splits)

lemma resolveEntryThemes_error:
  assumes "resolveEntryThemes E P entry md fallback st = Inl e"
  shows "(\<exists>m. e = Error m) \<and> e \<noteq> Error missingCoverMessage"
proof -
  from assms obtain rs c w t where "parseThemes E rs c w t st = Inl e"
    by (auto simp: resolveEntryThemes_def split: if_splits option.splits)
  then show ?thesis by (rule parseThemes_error)
qed

lemma ensureCoverImage_none:
  "\<not> truthy src \<Longrightarrow> ensureCoverImage E c src st = Inr None"
  by (cases src) (auto simp: ensureCoverImage_def)

lemma ensureCoverImage_some:
  assumes "truthy src"
  shows "(\<exists>e q. ensureCoverImage E c src st = Inl (StatError (Some e) q))
         \<or> (\<exists>i. ensureCoverImage E c src st = Inr (Some i))"
  using assms
  by (cases src) (auto simp: ensureCoverImage_def statFileSync_def)

lemma parseEntry_cover:
  assumes "isCoverEntry entry" and "reinterpretMissingPath E P entry st = (entry', st0)"
  shows "parseEntry E P entry st = parseCoverEntry E P entry' st0"
proof -
  from reinterpret_kind[OF assms(2)] assms(1) have "isCoverEntry entry'" by simp
  moreover then have "\<not> isContentsEntry entry'"
    by (auto simp: isCoverEntry_def isContentsEntry_def)
  ultimately show ?thesis using assms(2) by (simp add: parseEntry_def)
qed

text \<open>
  Claim C5, as the code has it. For a cover entry with no image source, neither its
  own nor the project's: resolution fails, and it fails with the error whose message
  asks to set the \<open>cover\<close> property whenever the steps before the cover image
  check (the input of the entry, its target, its themes) succeed; an error of one of
  those steps comes first. For a cover entry with an image source, resolution never
  fails with that error.
\<close>

theorem missing_cover_image:
  assumes "isCoverEntry entry"
  shows "(\<not> truthy (orElse (imageSrc entry) (coverSrcOf P)) \<longrightarrow>
            (\<exists>e. parseEntry E P entry st = Inl e)
            \<and> (coverInputsResolve E P entry st \<longrightarrow>
                 parseEntry E P entry st = Inl (Error missingCoverMessage)))
         \<and> (truthy (orElse (imageSrc entry) (coverSrcOf P)) \<longrightarrow>
              parseEntry E P entry st \<noteq> Inl (Error missingCoverMessage))"
proof -
  obtain entry' st0 where r: "reinterpretMissingPath E P entry st = (entry', st0)"
    by (cases "reinterpretMissingPath E P entry st")
  note pe = parseEntry_cover[OF assms r]
  from reinterpret_fields[OF r] have img: "imageSrc entry' = imageSrc entry" by simp
  let ?src = "orElse (imageSrc entry) (coverSrcOf P)"
  show ?thesis
  proof (cases "optionalInputInfo E P entry' st0")
    case (Inl e)
    with optionalInputInfo_error[OF Inl] r pe show ?thesis
      by (auto simp: parseCoverEntry_def coverInputsResolve_def)
  next
    case (Inr x)
    obtain info st1 where x: "x = (info, st1)" by (cases x)
    show ?thesis
    proof (cases "optionalTarget E P entry' info")
      case (Inl e)
      with optionalTarget_error[OF Inl] r pe Inr x show ?thesis
        by (auto simp: parseCoverEntry_def coverInputsResolve_def)
    next
      case t: (Inr target0)
      show ?thesis
      proof (cases "resolveEntryThemes E P entry' (metadataOf info) [] st1")
        case (Inl e)
        with resolveEntryThemes_error[OF Inl] r pe Inr x t show ?thesis
          by (auto simp: parseCoverEntry_def coverInputsResolve_def)
      next
        case th: (Inr y)
        obtain themes st2 where y: "y = (themes, st2)" by (cases y)
        have ok: "coverInputsResolve E P entry st"
          using r Inr x t th by (simp add: coverInputsResolve_def)
        show ?thesis
        proof (cases "truthy ?src")
          case False
          with ensureCoverImage_none[of ?src E "entryContextDir (scopeCommon P)" "addThemes themes st2"]
          have "parseCoverEntry E P entry' st0 = Inl (Error missingCoverMessage)"
            using Inr x t th y img by (simp add: parseCoverEntry_def)
          with pe False show ?thesis by simp
        next
          case True
          from ensureCoverImage_some[OF True, of E "entryContextDir (scopeCommon P)" "addThemes themes st2"]
          have "parseCoverEntry E P entry' st0 \<noteq> Inl (Error missingCoverMessage)"
            using Inr x t th y img
            by (auto simp: parseCoverEntry_def split: prod.splits)
          with pe True show ?thesis by simp
        qed
      qed
    qed
  qed
qed

lemma example_cover_without_image:
  "parseEntry exampleEnv exampleScope (coverWithPath ''cover.html'') initialState
   = Inl (Error missingCoverMessage)"
  by (simp add: path_defs example_defs entry_defs Let_def)

theorem missing_cover_image_witness:
  "isCoverEntry (coverWithPath ''cover.html'')
   \<and> \<not> truthy (orElse (imageSrc (coverWithPath ''cover.html'')) (coverSrcOf exampleScope))
   \<and> coverInputsResolve exampleEnv exampleScope (coverWithPath ''cover.html'') initialState
   \<and> parseEntry exampleEnv exampleScope (coverWithPath ''cover.html'') initialState
     = Inl (Error missingCoverMessage)"
proof -
  have c: "isCoverEntry (coverWithPath ''cover.html'')"
    by (simp add: example_defs entry_defs)
  have n: "\<not> truthy (orElse (imageSrc (coverWithPath ''cover.html'')) (coverSrcOf exampleScope))"
    by (simp add: example_defs entry_defs)
  have r: "coverInputsResolve exampleEnv exampleScope (coverWithPath ''cover.html'') initialState"
    by (simp add: path_defs example_defs entry_defs Let_def)
  from missing_cover_image[OF c, of exampleScope exampleEnv initialState] c n r
  show ?thesis by simp
qed

text \<open>
  Claim C5 as stated fails: a cover entry without any image source whose path names
  an image file fails with the error for a file that is not a manuscript, which says
  nothing of the \<open>cover\<close> property.
\<close>

theorem cover_with_image_path_counterexample:
  "isCoverEntry (coverWithPath ''image.png'')
   \<and> imageSrc (coverWithPath ''image.png'') = None
   \<and> cover (scopeCommon exampleScope) = None
   \<and> parseEntry exampleEnv exampleScope (coverWithPath ''image.png'') initialState
     = Inl (Error ''Invalid manuscript type image/png detected: [object Object]'')
   \<and> ''Invalid manuscript type image/png detected: [object Object]'' \<noteq> missingCoverMessage"
  by (simp add: path_defs example_defs entry_defs Let_def)

section \<open>A contents or cover entry whose path names no file\<close>





































section \<open>Single-input mode with a markdown file\<close>



















end
